theory Spec2Isabelle
  imports Main "HOL-Library.Sublist"
begin

section \<open>Python values\<close>

text \<open>
  The values that flow through \<^verbatim>\<open>app.py\<close>: what the external engine returns to
  \<^verbatim>\<open>_normalize_result\<close>, what the payload dictionary holds and what is stored as the
  content of a message. A \<^verbatim>\<open>dict\<close> with string keys is an association list in
  insertion order, read with \<open>map_of\<close>. A finite \<^verbatim>\<open>float\<close> is its exact value
  \<open>m * 2 ^ e\<close>, given by the two integers \<open>m\<close> and \<open>e\<close>.
\<close>

datatype pyfloat = Finite int int | NegZero | NaN | PosInf | NegInf

datatype pyval =
    PNone
  | PBool bool
  | PInt int
  | PFloat pyfloat
  | PStr string
  | PList "pyval list"
  | PDict "(string \<times> pyval) list"

text \<open>
  What a \<^verbatim>\<open>raise\<close> raises, with the name of the class and the message
  (\<^verbatim>\<open>str(e)\<close>):
  \<^item> \<open>PyErr\<close>: an instance of \<^verbatim>\<open>Exception\<close>, which an \<^verbatim>\<open>except Exception\<close> clause
    catches;
  \<^item> \<open>PySignal\<close>: an instance of \<^verbatim>\<open>BaseException\<close> that is not an
    \<^verbatim>\<open>Exception\<close> (\<^verbatim>\<open>asyncio.CancelledError\<close>, \<^verbatim>\<open>KeyboardInterrupt\<close>,
    \<^verbatim>\<open>SystemExit\<close>), which an \<^verbatim>\<open>except Exception\<close> clause lets through.
\<close>

datatype pyerr = PyErr string string | PySignal string string

text \<open>\<^verbatim>\<open>isinstance(e, Exception)\<close>\<close>

fun is_exception :: "pyerr \<Rightarrow> bool" where
  "is_exception (PyErr cls msg) = True"
| "is_exception (PySignal cls msg) = False"

definition bind_err :: "pyerr + 'a \<Rightarrow> ('a \<Rightarrow> pyerr + 'b) \<Rightarrow> pyerr + 'b" where
  "bind_err m f = (case m of Inl e \<Rightarrow> Inl e | Inr v \<Rightarrow> f v)"

text \<open>\<^verbatim>\<open>type(v).__name__\<close>, as it appears in the interpreter's error messages.\<close>

fun py_type_name :: "pyval \<Rightarrow> string" where
  "py_type_name PNone = ''NoneType''"
| "py_type_name (PBool _) = ''bool''"
| "py_type_name (PInt _) = ''int''"
| "py_type_name (PFloat _) = ''float''"
| "py_type_name (PStr _) = ''str''"
| "py_type_name (PList _) = ''list''"
| "py_type_name (PDict _) = ''dict''"

text \<open>Truthiness: what \<^verbatim>\<open>if v:\<close> and \<^verbatim>\<open>v or w\<close> test.\<close>

fun float_truthy :: "pyfloat \<Rightarrow> bool" where
  "float_truthy (Finite m e) = (m \<noteq> 0)"
| "float_truthy NegZero = False"
| "float_truthy NaN = True"
| "float_truthy PosInf = True"
| "float_truthy NegInf = True"

fun py_truthy :: "pyval \<Rightarrow> bool" where
  "py_truthy PNone = False"
| "py_truthy (PBool b) = b"
| "py_truthy (PInt i) = (i \<noteq> 0)"
| "py_truthy (PFloat f) = float_truthy f"
| "py_truthy (PStr s) = (s \<noteq> [])"
| "py_truthy (PList xs) = (xs \<noteq> [])"
| "py_truthy (PDict d) = (d \<noteq> [])"

text \<open>\<^verbatim>\<open>a or b\<close> on two values that are already computed.\<close>

definition py_or :: "pyval \<Rightarrow> pyval \<Rightarrow> pyval" where
  "py_or a b = (if py_truthy a then a else b)"

subsection \<open>Dictionaries\<close>

text \<open>The apostrophe, which cannot end a string literal.\<close>

definition apos :: string where
  "apos = [CHR 0x27]"

type_synonym pydict = "(string \<times> pyval) list"

text \<open>\<^verbatim>\<open>k in d\<close>\<close>

definition py_in :: "string \<Rightarrow> pydict \<Rightarrow> bool" where
  "py_in k d = (map_of d k \<noteq> None)"

text \<open>\<^verbatim>\<open>d[k]\<close>, which raises \<^verbatim>\<open>KeyError\<close> on a missing key.\<close>

definition py_getitem :: "pydict \<Rightarrow> string \<Rightarrow> pyerr + pyval" where
  "py_getitem d k =
     (case map_of d k of
        None \<Rightarrow> Inl (PyErr ''KeyError'' (apos @ k @ apos))
      | Some v \<Rightarrow> Inr v)"

text \<open>\<^verbatim>\<open>d.get(k, default)\<close> and \<^verbatim>\<open>d.get(k)\<close>\<close>

definition dict_get_default :: "pydict \<Rightarrow> string \<Rightarrow> pyval \<Rightarrow> pyval" where
  "dict_get_default d k dflt = (case map_of d k of None \<Rightarrow> dflt | Some v \<Rightarrow> v)"

definition dict_get :: "pydict \<Rightarrow> string \<Rightarrow> pyval" where
  "dict_get d k = dict_get_default d k PNone"

text \<open>
  \<^verbatim>\<open>d[k] = v\<close>: an existing key keeps its place, a new key goes to the end.
\<close>

fun dict_set :: "pydict \<Rightarrow> string \<Rightarrow> pyval \<Rightarrow> pydict" where
  "dict_set [] k v = [(k, v)]"
| "dict_set ((k', v') # d) k v =
     (if k' = k then (k, v) # d else (k', v') # dict_set d k v)"

subsection \<open>Decimal numerals and \<^verbatim>\<open>str\<close>\<close>

text \<open>The decimal digit \<open>d\<close>, for \<open>d\<close> below ten.\<close>

definition digit_char :: "nat \<Rightarrow> char" where
  "digit_char d =
     (if d = 0 then CHR ''0'' else if d = 1 then CHR ''1'' else if d = 2 then CHR ''2''
      else if d = 3 then CHR ''3'' else if d = 4 then CHR ''4'' else if d = 5 then CHR ''5''
      else if d = 6 then CHR ''6'' else if d = 7 then CHR ''7'' else if d = 8 then CHR ''8''
      else CHR ''9'')"

fun nat_str :: "nat \<Rightarrow> string" where
  "nat_str n = (if n < 10 then [digit_char n] else nat_str (n div 10) @ [digit_char (n mod 10)])"

declare nat_str.simps [simp del]

definition int_str :: "int \<Rightarrow> string" where
  "int_str i = (if i < 0 then ''-'' @ nat_str (nat (- i)) else nat_str (nat i))"

text \<open>
  What the program calls and is not part of it, Python's own functions and Streamlit's:
  \<^item> \<open>str_other\<close>: the text \<^verbatim>\<open>str(v)\<close> of a float, a list or a dictionary (their
    \<^verbatim>\<open>repr\<close>), when \<^verbatim>\<open>str\<close> returns;
  \<^item> \<open>str_other_raises\<close>: the exception that \<^verbatim>\<open>str(v)\<close> raises on a list or a
    dictionary, if it raises (as it does when an element cannot be converted);
  \<^item> \<open>max_str_digits\<close>: \<^verbatim>\<open>sys.get_int_max_str_digits()\<close>, the largest number of
    digits with which an integer is converted to text: 4300 unless configured, \<open>0\<close>
    for no limit (as before Python 3.11);
  \<^item> \<open>tabular_ok\<close>: whether \<^verbatim>\<open>import pandas\<close>, \<^verbatim>\<open>pd.DataFrame(rows)\<close> and
    \<^verbatim>\<open>st.dataframe(df)\<close> all succeed on the given rows;
  \<^item> \<open>write_raises\<close>: the exception that \<^verbatim>\<open>st.write(v)\<close> raises, if it raises.
\<close>

record builtins =
  str_other :: "pyval \<Rightarrow> string"
  tabular_ok :: "pyval \<Rightarrow> bool"
  str_other_raises :: "pyval \<Rightarrow> pyerr option"
  max_str_digits :: nat
  write_raises :: "pyval \<Rightarrow> pyerr option"

text \<open>
  The text of \<^verbatim>\<open>str(v)\<close>, which is also what an f-string field \<^verbatim>\<open>{v}\<close> without a
  format specification inserts, when the conversion returns; whether it returns is
  \<open>py_str_raises\<close>.
\<close>

fun py_str :: "builtins \<Rightarrow> pyval \<Rightarrow> string" where
  "py_str B (PStr s) = s"
| "py_str B PNone = ''None''"
| "py_str B (PBool b) = (if b then ''True'' else ''False'')"
| "py_str B (PInt i) = int_str i"
| "py_str B v = str_other B v"

text \<open>
  The exception that \<^verbatim>\<open>str(v)\<close> raises, if it raises: \<^verbatim>\<open>ValueError\<close> for an
  integer with more digits than the limit allows; nothing for a string,
  \<^verbatim>\<open>None\<close>, a boolean or a float.
\<close>

definition int_str_error :: "nat \<Rightarrow> pyerr" where
  "int_str_error limit =
     PyErr ''ValueError''
       (''Exceeds the limit ('' @ nat_str limit @ '' digits) for integer string conversion; ''
        @ ''use sys.set_int_max_str_digits() to increase the limit'')"

fun py_str_raises :: "builtins \<Rightarrow> pyval \<Rightarrow> pyerr option" where
  "py_str_raises B (PStr s) = None"
| "py_str_raises B PNone = None"
| "py_str_raises B (PBool b) = None"
| "py_str_raises B (PInt i) =
     (if 0 < max_str_digits B \<and> max_str_digits B < length (nat_str (nat \<bar>i\<bar>))
      then Some (int_str_error (max_str_digits B))
      else None)"
| "py_str_raises B (PFloat f) = None"
| "py_str_raises B v = str_other_raises B v"

text \<open>The call \<^verbatim>\<open>str(v)\<close>, and the conversion of the f-string field \<^verbatim>\<open>{v}\<close>.\<close>

definition py_str_call :: "builtins \<Rightarrow> pyval \<Rightarrow> pyerr + string" where
  "py_str_call B v = (case py_str_raises B v of Some e \<Rightarrow> Inl e | None \<Rightarrow> Inr (py_str B v))"

section \<open>ResultNormalizer: \<^verbatim>\<open>_normalize_result\<close>\<close>

text \<open>
  \<^verbatim>\<open>
  def _normalize_result(result: Any) -> Dict[str, Any]:
      if isinstance(result, str):
          return {"answer": result}
      if isinstance(result, dict):
          normalized = {"answer": result.get("answer") or result.get("result") or ""}
          if "sources" in result and isinstance(result["sources"], list):
              normalized["sources"] = result["sources"]
          if "sql" in result:
              normalized["sql"] = result["sql"]
          if "rows" in result:
              normalized["rows"] = result["rows"]
          return normalized
      return {"answer": str(result)}
  \<close>
  The result is \<open>Inr\<close> of the returned dictionary, or \<open>Inl\<close> of the exception raised.
\<close>

fun is_list :: "pyval \<Rightarrow> bool" where
  "is_list (PList _) = True"
| "is_list _ = False"

fun is_str :: "pyval \<Rightarrow> bool" where
  "is_str (PStr _) = True"
| "is_str _ = False"

fun is_dict :: "pyval \<Rightarrow> bool" where
  "is_dict (PDict _) = True"
| "is_dict _ = False"

text \<open>One \<^verbatim>\<open>if k in result: normalized[k] = result[k]\<close> statement.\<close>

definition copy_if_present :: "pydict \<Rightarrow> string \<Rightarrow> pydict \<Rightarrow> pyerr + pydict" where
  "copy_if_present result k normalized =
     (if py_in k result
      then bind_err (py_getitem result k) (\<lambda>v. Inr (dict_set normalized k v))
      else Inr normalized)"

fun normalize_result :: "builtins \<Rightarrow> pyval \<Rightarrow> pyerr + pydict" where
  "normalize_result B (PStr s) = Inr [(''answer'', PStr s)]"
| "normalize_result B (PDict result) =
     (let normalized =
            [(''answer'', py_or (py_or (dict_get result ''answer'') (dict_get result ''result''))
                                (PStr ''''))]
      in bind_err (if py_in ''sources'' result
                   then bind_err (py_getitem result ''sources'') (\<lambda>v. Inr (is_list v))
                   else Inr False) (\<lambda>c.
         bind_err (if c
                   then bind_err (py_getitem result ''sources'')
                          (\<lambda>v. Inr (dict_set normalized ''sources'' v))
                   else Inr normalized) (\<lambda>n1.
         bind_err (copy_if_present result ''sql'' n1) (\<lambda>n2.
         bind_err (copy_if_present result ''rows'' n2) (\<lambda>n3.
         Inr n3)))))"
| "normalize_result B v = bind_err (py_str_call B v) (\<lambda>s. Inr [(''answer'', PStr s)])"

section \<open>Fixed-point formatting: \<^verbatim>\<open>f"{x:.3f}"\<close>\<close>

text \<open>
  \<open>round_half_even_div a d\<close> is \<open>a / d\<close> rounded to the nearest integer, a tie going to
  the even one: the rounding of a float to a given number of decimals.
\<close>

definition round_half_even_div :: "nat \<Rightarrow> nat \<Rightarrow> nat" where
  "round_half_even_div a d =
     (let q = a div d; r = a mod d
      in if 2 * r > d \<or> (2 * r = d \<and> odd q) then q + 1 else q)"

definition pad_zeros :: "nat \<Rightarrow> string \<Rightarrow> string" where
  "pad_zeros k s = replicate (k - length s) (CHR ''0'') @ s"

text \<open>The digits of \<open>n / 10 ^ k\<close> with exactly \<open>k\<close> decimals.\<close>

definition fixed_digits :: "nat \<Rightarrow> nat \<Rightarrow> string" where
  "fixed_digits k n =
     nat_str (n div 10 ^ k) @ (if k = 0 then [] else ''.'' @ pad_zeros k (nat_str (n mod 10 ^ k)))"

text \<open>\<^verbatim>\<open>format(x, ".kf")\<close> for a float \<open>x\<close>.\<close>

fun format_float_f :: "nat \<Rightarrow> pyfloat \<Rightarrow> string" where
  "format_float_f k (Finite m e) =
     (if m < 0 then ''-'' else [])
     @ fixed_digits k
         (if 0 \<le> e then nat \<bar>m\<bar> * 2 ^ nat e * 10 ^ k
          else round_half_even_div (nat \<bar>m\<bar> * 10 ^ k) (2 ^ nat (- e)))"
| "format_float_f k NegZero = ''-'' @ fixed_digits k 0"
| "format_float_f k NaN = ''nan''"
| "format_float_f k PosInf = ''inf''"
| "format_float_f k NegInf = ''-inf''"

fun bit_length :: "nat \<Rightarrow> nat" where
  "bit_length n = (if n = 0 then 0 else Suc (bit_length (n div 2)))"

declare bit_length.simps [simp del]

text \<open>
  \<^verbatim>\<open>float(i)\<close>, which formatting an integer with \<^verbatim>\<open>.3f\<close> goes through: exact up
  to 53 bits, rounded to 53 bits (ties to even) beyond, and \<^verbatim>\<open>OverflowError\<close> when
  the rounded value reaches \<open>2 ^ 1024\<close>.
\<close>

definition int_to_float :: "int \<Rightarrow> pyerr + pyfloat" where
  "int_to_float i =
     (let a = nat \<bar>i\<bar>; n = bit_length a
      in if n \<le> 53 then Inr (Finite i 0)
         else let e = n - 53; q = round_half_even_div a (2 ^ e)
              in if 2 ^ 1024 \<le> q * 2 ^ e
                 then Inl (PyErr ''OverflowError'' ''int too large to convert to float'')
                 else Inr (Finite (sgn i * int q) (int e)))"

text \<open>\<^verbatim>\<open>format(v, ".kf")\<close> for any value.\<close>

fun format_f :: "nat \<Rightarrow> pyval \<Rightarrow> pyerr + string" where
  "format_f k (PFloat f) = Inr (format_float_f k f)"
| "format_f k (PInt i) = bind_err (int_to_float i) (\<lambda>f. Inr (format_float_f k f))"
| "format_f k (PBool b) =
     bind_err (int_to_float (if b then 1 else 0)) (\<lambda>f. Inr (format_float_f k f))"
| "format_f k (PStr s) =
     Inl (PyErr ''ValueError''
            (''Unknown format code '' @ apos @ ''f'' @ apos @ '' for object of type ''
             @ apos @ ''str'' @ apos))"
| "format_f k v =
     Inl (PyErr ''TypeError''
            (''unsupported format string passed to '' @ py_type_name v @ ''.__format__''))"

text \<open>\<^verbatim>\<open>isinstance(v, (int, float))\<close>; \<^verbatim>\<open>bool\<close> is a subclass of \<^verbatim>\<open>int\<close>.\<close>

fun is_int_or_float :: "pyval \<Rightarrow> bool" where
  "is_int_or_float (PBool _) = True"
| "is_int_or_float (PInt _) = True"
| "is_int_or_float (PFloat _) = True"
| "is_int_or_float _ = False"

section \<open>What is written to the page\<close>

text \<open>
  The calls to Streamlit, in the order they are made. A \<^verbatim>\<open>with\<close> block
  (\<^verbatim>\<open>st.expander\<close>, \<^verbatim>\<open>st.chat_message\<close>) holds the elements written inside it.
  The two avatars are emoji in the source.
\<close>

datatype avatar = NoAvatar | UserAvatar | AssistantAvatar

datatype ui =
    Markdown pyval
  | MarkdownHtml string
  | Code string string
  | Dataframe pyval
  | Write pyval
  | ErrorBox string
  | Caption string
  | Expander string "ui list"
  | ChatMessage string avatar "ui list"

text \<open>
  A piece of code that writes to the page and may raise: the elements written, and the
  exception if one was raised. What was written before the exception stays on the page.
\<close>

type_synonym out = "ui list \<times> pyerr option"

definition emit :: "ui list \<Rightarrow> out" where
  "emit xs = (xs, None)"

definition then_ui :: "out \<Rightarrow> out \<Rightarrow> out" where
  "then_ui a b =
     (case a of
        (xs, Some e) \<Rightarrow> (xs, Some e)
      | (xs, None) \<Rightarrow> (case b of (ys, r) \<Rightarrow> (xs @ ys, r)))"

definition in_expander :: "string \<Rightarrow> out \<Rightarrow> out" where
  "in_expander title body = (case body of (xs, r) \<Rightarrow> ([Expander title xs], r))"

text \<open>
  \<^verbatim>\<open>
  def _render_message(role: str, content: str, avatar: str = ""):
      cls = "bubble-assistant" if role == "assistant" else "bubble-user"
      with st.chat_message(role, avatar=avatar):
          st.markdown(f"<div class='bubble {cls}'>{content}</div>", unsafe_allow_html=True)
  \<close>
\<close>

definition render_message :: "builtins \<Rightarrow> string \<Rightarrow> pyval \<Rightarrow> avatar \<Rightarrow> ui list" where
  "render_message B role content avatar =
     (let cls = (if role = ''assistant'' then ''bubble-assistant'' else ''bubble-user'')
      in [ChatMessage role avatar
            [MarkdownHtml (''<div class='' @ apos @ ''bubble '' @ cls @ apos @ ''>''
                           @ py_str B content @ ''</div>'')]])"

section \<open>AnswerRenderer: \<^verbatim>\<open>_render_rich_answer\<close>\<close>

text \<open>\<^verbatim>\<open>k in payload and payload[k]\<close>, as a condition.\<close>

definition key_truthy :: "pydict \<Rightarrow> string \<Rightarrow> pyerr + bool" where
  "key_truthy payload k =
     (if py_in k payload
      then bind_err (py_getitem payload k) (\<lambda>v. Inr (py_truthy v))
      else Inr False)"

text \<open>\<^verbatim>\<open>src.get(k)\<close>: \<^verbatim>\<open>AttributeError\<close> unless \<open>src\<close> is a dictionary.\<close>

fun py_get :: "pyval \<Rightarrow> string \<Rightarrow> pyerr + pyval" where
  "py_get (PDict d) k = Inr (dict_get d k)"
| "py_get v k =
     Inl (PyErr ''AttributeError''
            (apos @ py_type_name v @ apos @ '' object has no attribute '' @ apos @ ''get'' @ apos))"

text \<open>
  What \<^verbatim>\<open>enumerate(v, start=1)\<close> runs over: the elements of a list, the characters
  of a string, the keys of a dictionary; \<^verbatim>\<open>TypeError\<close> for anything else.
\<close>

fun py_iter :: "pyval \<Rightarrow> pyerr + pyval list" where
  "py_iter (PList xs) = Inr xs"
| "py_iter (PStr s) = Inr (map (\<lambda>c. PStr [c]) s)"
| "py_iter (PDict d) = Inr (map (\<lambda>kv. PStr (fst kv)) d)"
| "py_iter v = Inl (PyErr ''TypeError'' (apos @ py_type_name v @ apos @ '' object is not iterable''))"

text \<open>
  \<^verbatim>\<open>st.markdown(v)\<close> on a value: Streamlit converts the body with \<^verbatim>\<open>str\<close>, which
  may raise; the body of a string is written as it is.
\<close>

definition st_markdown :: "builtins \<Rightarrow> pyval \<Rightarrow> out" where
  "st_markdown B v = (case py_str_raises B v of Some e \<Rightarrow> ([], Some e) | None \<Rightarrow> emit [Markdown v])"

text \<open>
  \<^verbatim>\<open>st.markdown(f"...")\<close>: the f-string is built first and may raise; then the text
  is written.
\<close>

definition markdown_text :: "pyerr + string \<Rightarrow> out" where
  "markdown_text t = (case t of Inl e \<Rightarrow> ([], Some e) | Inr s \<Rightarrow> emit [Markdown (PStr s)])"

text \<open>\<^verbatim>\<open>st.write(v)\<close>\<close>

definition st_write :: "builtins \<Rightarrow> pyval \<Rightarrow> out" where
  "st_write B v = (case write_raises B v of Some e \<Rightarrow> ([], Some e) | None \<Rightarrow> emit [Write v])"

text \<open>
  The body of the loop over the sources, for the source \<open>src\<close> numbered \<open>i\<close>:
  \<^verbatim>\<open>
  title = src.get("title") or f"Source {i}"
  url = src.get("url") or ""
  score = src.get("score")
  snippet = src.get("snippet") or src.get("text") or ""
  meta = f" **(score: {score:.3f})**" if isinstance(score, (int, float)) else ""
  st.markdown(f"**{i}. {title}**{meta}")
  if url:
      st.markdown(f"- Link: {url}")
  if snippet:
      st.markdown(f"> {snippet}")
  \<close>
  \<open>source_fields\<close> is the first five lines, which write nothing: the title, the url,
  the snippet and the score label. \<open>source_item\<close> is the whole body; each of its three
  f-strings converts a value to text and may raise after the lines before it have been
  written.
\<close>

definition source_fields :: "nat \<Rightarrow> pyval \<Rightarrow> pyerr + (pyval \<times> pyval \<times> pyval \<times> string)" where
  "source_fields i src =
     bind_err (py_get src ''title'') (\<lambda>t.
     let title = py_or t (PStr (''Source '' @ nat_str i)) in
     bind_err (py_get src ''url'') (\<lambda>u.
     let url = py_or u (PStr '''') in
     bind_err (py_get src ''score'') (\<lambda>score.
     bind_err (py_get src ''snippet'') (\<lambda>s1.
     bind_err (if py_truthy s1 then Inr s1
               else bind_err (py_get src ''text'') (\<lambda>s2. Inr (py_or s2 (PStr '''')))) (\<lambda>snippet.
     bind_err (if is_int_or_float score
               then bind_err (format_f 3 score) (\<lambda>s. Inr ('' **(score: '' @ s @ '')**''))
               else Inr '''') (\<lambda>meta.
     Inr (title, url, snippet, meta)))))))"

definition source_item :: "builtins \<Rightarrow> nat \<Rightarrow> pyval \<Rightarrow> out" where
  "source_item B i src =
     (case source_fields i src of
        Inl e \<Rightarrow> ([], Some e)
      | Inr (title, url, snippet, meta) \<Rightarrow>
          then_ui (markdown_text
                     (bind_err (py_str_call B title)
                        (\<lambda>t. Inr (''**'' @ nat_str i @ ''. '' @ t @ ''**'' @ meta))))
         (then_ui (if py_truthy url
                   then markdown_text
                          (bind_err (py_str_call B url) (\<lambda>u. Inr (''- Link: '' @ u)))
                   else emit [])
                  (if py_truthy snippet
                   then markdown_text
                          (bind_err (py_str_call B snippet) (\<lambda>t. Inr (''> '' @ t)))
                   else emit [])))"

text \<open>\<^verbatim>\<open>for i, src in enumerate(..., start=1)\<close>, from the index \<open>i\<close> on.\<close>

fun sources_loop :: "builtins \<Rightarrow> nat \<Rightarrow> pyval list \<Rightarrow> out" where
  "sources_loop B i [] = emit []"
| "sources_loop B i (src # rest) =
     then_ui (source_item B i src) (sources_loop B (Suc i) rest)"

text \<open>
  \<^verbatim>\<open>
  if "sql" in payload and payload["sql"]:
      with st.expander("SQL used (debug)"):
          st.code(str(payload["sql"]), language="sql")
  \<close>
\<close>

definition sql_block :: "builtins \<Rightarrow> pydict \<Rightarrow> out" where
  "sql_block B payload =
     (case key_truthy payload ''sql'' of
        Inl e \<Rightarrow> ([], Some e)
      | Inr c \<Rightarrow>
          if c then in_expander ''SQL used (debug)''
                      (case bind_err (py_getitem payload ''sql'') (py_str_call B) of
                         Inl e \<Rightarrow> ([], Some e)
                       | Inr s \<Rightarrow> emit [Code s ''sql''])
          else emit [])"

text \<open>
  \<^verbatim>\<open>
  if "rows" in payload and payload["rows"]:
      with st.expander("Structured results"):
          try:
              import pandas as pd
              df = pd.DataFrame(payload["rows"])
              st.dataframe(df, use_container_width=True, hide_index=True)
          except Exception:
              st.write(payload["rows"])
  \<close>
\<close>

definition rows_fallback :: "builtins \<Rightarrow> pydict \<Rightarrow> out" where
  "rows_fallback B payload =
     (case py_getitem payload ''rows'' of
        Inl e \<Rightarrow> ([], Some e)
      | Inr v \<Rightarrow> st_write B v)"

definition rows_table :: "builtins \<Rightarrow> pydict \<Rightarrow> out" where
  "rows_table B payload =
     (case py_getitem payload ''rows'' of
        Inl e \<Rightarrow> rows_fallback B payload
      | Inr v \<Rightarrow> if tabular_ok B v then emit [Dataframe v] else rows_fallback B payload)"

definition rows_block :: "builtins \<Rightarrow> pydict \<Rightarrow> out" where
  "rows_block B payload =
     (case key_truthy payload ''rows'' of
        Inl e \<Rightarrow> ([], Some e)
      | Inr c \<Rightarrow> if c then in_expander ''Structured results'' (rows_table B payload) else emit [])"

text \<open>
  \<^verbatim>\<open>
  if "sources" in payload and payload["sources"]:
      with st.expander("Sources & citations"):
          for i, src in enumerate(payload["sources"], start=1):
              ...
  \<close>
\<close>

definition sources_block :: "builtins \<Rightarrow> pydict \<Rightarrow> out" where
  "sources_block B payload =
     (case key_truthy payload ''sources'' of
        Inl e \<Rightarrow> ([], Some e)
      | Inr c \<Rightarrow>
          if c then in_expander ''Sources & citations''
                      (case py_getitem payload ''sources'' of
                         Inl e \<Rightarrow> ([], Some e)
                       | Inr v \<Rightarrow>
                           (case py_iter v of
                              Inl e \<Rightarrow> ([], Some e)
                            | Inr xs \<Rightarrow> sources_loop B 1 xs))
          else emit [])"

text \<open>
  \<^verbatim>\<open>
  def _render_rich_answer(payload: Dict[str, Any]):
      st.markdown(payload.get("answer", ""))
      ...
  \<close>
\<close>

definition render_rich_answer :: "builtins \<Rightarrow> pydict \<Rightarrow> out" where
  "render_rich_answer B payload =
     then_ui (st_markdown B (dict_get_default payload ''answer'' (PStr '''')))
    (then_ui (sql_block B payload)
    (then_ui (rows_block B payload)
             (sources_block B payload)))"

section \<open>ConversationStore: \<^verbatim>\<open>st.session_state.messages\<close>\<close>

text \<open>A message is the dictionary \<^verbatim>\<open>{"role": ..., "content": ...}\<close>.\<close>

record turn =
  role :: string
  content :: pyval

text \<open>\<^verbatim>\<open>st.session_state.messages.append({"role": r, "content": c})\<close>\<close>

definition messages_append :: "string \<Rightarrow> pyval \<Rightarrow> turn list \<Rightarrow> turn list" where
  "messages_append r c ms = ms @ [\<lparr>role = r, content = c\<rparr>]"

text \<open>The Clear Chat button: \<^verbatim>\<open>st.session_state.messages = []\<close>\<close>

definition messages_clear :: "turn list \<Rightarrow> turn list" where
  "messages_clear ms = []"

text \<open>
  The replay of the history:
  \<^verbatim>\<open>
  for m in st.session_state.messages:
      _render_message(m["role"], m["content"], avatar=(user emoji if m["role"] == "user" else robot emoji))
  \<close>
\<close>

fun replay :: "builtins \<Rightarrow> turn list \<Rightarrow> ui list" where
  "replay B [] = []"
| "replay B (m # ms) =
     render_message B (role m) (content m)
       (if role m = ''user'' then UserAvatar else AssistantAvatar)
     @ replay B ms"

text \<open>
  The transcript export:
  \<^verbatim>\<open>
  if st.session_state.messages:
      transcript_md = []
      for m in st.session_state.messages:
          prefix = "**You:**" if m["role"] == "user" else "**Assistant:**"
          transcript_md.append(f"{prefix}\n\n{m['content']}\n")
      md_blob = "\n---\n".join(transcript_md)
      st.download_button(..., data=md_blob.encode("utf-8"), ...)
  \<close>
  \<open>transcript_md\<close> is the loop, with the list built so far; \<open>md_blob\<close> is \<open>None\<close> when
  there is no message and no download button.
\<close>

definition nl :: string where
  "nl = [CHR 0x0A]"

fun transcript_md :: "builtins \<Rightarrow> turn list \<Rightarrow> string list \<Rightarrow> string list" where
  "transcript_md B [] acc = acc"
| "transcript_md B (m # ms) acc =
     (let prefix = (if role m = ''user'' then ''**You:**'' else ''**Assistant:**'')
      in transcript_md B ms (acc @ [prefix @ nl @ nl @ py_str B (content m) @ nl]))"

text \<open>\<^verbatim>\<open>sep.join(xs)\<close>\<close>

fun py_join :: "string \<Rightarrow> string list \<Rightarrow> string" where
  "py_join sep [] = []"
| "py_join sep [x] = x"
| "py_join sep (x # y # ys) = x @ sep @ py_join sep (y # ys)"

definition md_blob :: "builtins \<Rightarrow> turn list \<Rightarrow> string option" where
  "md_blob B ms =
     (if ms \<noteq> [] then Some (py_join (nl @ ''---'' @ nl) (transcript_md B ms [])) else None)"

section \<open>QuerySession: \<^verbatim>\<open>_process_query\<close>\<close>

text \<open>
  The two operations of the external module \<^verbatim>\<open>hybrid_rag\<close>, each run to completion
  with \<^verbatim>\<open>asyncio.run\<close>. \<open>setup_hybrid_rag n\<close> is the outcome of the initializer
  when it has been invoked \<open>n\<close> times before; \<open>query_hybrid_rag n w q\<close> is the outcome
  of the query \<open>q\<close> on the handle \<open>w\<close> when the query operation has been called \<open>n\<close>
  times before, so that a second call may end differently from the first.
\<close>

record 'w engine =
  setup_hybrid_rag :: "nat \<Rightarrow> pyerr + 'w"
  query_hybrid_rag :: "nat \<Rightarrow> 'w \<Rightarrow> string \<Rightarrow> pyerr + pyval"

text \<open>
  \<^verbatim>\<open>st.session_state\<close>, together with what the current run of the script has written
  to the page and the calls made so far to the external query operation.
\<close>

record 'w session =
  messages :: "turn list"
  workflow :: 'w
  page :: "ui list"
  query_calls :: "('w \<times> string) list"

fun err_str :: "pyerr \<Rightarrow> string" where
  "err_str (PyErr cls msg) = msg"
| "err_str (PySignal cls msg) = msg"

definition fallback_message :: string where
  "fallback_message = ''Sorry, something went wrong while processing your query.''"

text \<open>
  \<^verbatim>\<open>try: body  except Exception as e: handler(e)\<close>, where the body writes to the page
  and yields a value. What is not an \<^verbatim>\<open>Exception\<close> passes through the clause.
\<close>

definition try_except ::
  "ui list \<times> (pyerr + 'a) \<Rightarrow> (pyerr \<Rightarrow> ui list \<times> (pyerr + 'a)) \<Rightarrow> ui list \<times> (pyerr + 'a)" where
  "try_except body handler =
     (case body of
        (xs, Inr a) \<Rightarrow> (xs, Inr a)
      | (xs, Inl e) \<Rightarrow>
          if is_exception e then (case handler e of (ys, r) \<Rightarrow> (xs @ ys, r))
          else (xs, Inl e))"

text \<open>
  The call \<^verbatim>\<open>asyncio.run(query_hybrid_rag(st.session_state.workflow, query_text))\<close>:
  its outcome, and the session with the call recorded. Every call of the operation goes
  through here, so that \<open>query_calls\<close> holds exactly the calls that were made.
\<close>

definition call_query :: "'w engine \<Rightarrow> string \<Rightarrow> 'w session \<Rightarrow> (pyerr + pyval) \<times> 'w session" where
  "call_query G query_text s =
     (query_hybrid_rag G (length (query_calls s)) (workflow s) query_text,
      s\<lparr>query_calls := query_calls s @ [(workflow s, query_text)]\<rparr>)"

text \<open>
  The body of the \<^verbatim>\<open>try\<close>:
  \<^verbatim>\<open>
  raw = asyncio.run(query_hybrid_rag(st.session_state.workflow, query_text))
  payload = _normalize_result(raw)
  _render_rich_answer(payload)
  answer_text = payload.get("answer", "")
  \<close>
  The result is what was written, the exception or the answer text, and the session
  after the call of the query operation.
\<close>

definition query_body ::
  "builtins \<Rightarrow> 'w engine \<Rightarrow> string \<Rightarrow> 'w session \<Rightarrow> (ui list \<times> (pyerr + pyval)) \<times> 'w session" where
  "query_body B G query_text s =
     (case call_query G query_text s of
        (Inl e, s') \<Rightarrow> (([], Inl e), s')
      | (Inr raw, s') \<Rightarrow>
          (case normalize_result B raw of
             Inl e \<Rightarrow> (([], Inl e), s')
           | Inr payload \<Rightarrow>
               (case render_rich_answer B payload of
                  (xs, Some e) \<Rightarrow> ((xs, Inl e), s')
                | (xs, None) \<Rightarrow>
                    ((xs, Inr (dict_get_default payload ''answer'' (PStr ''''))), s'))))"

text \<open>
  \<^verbatim>\<open>
  def _process_query(query_text: str):
      st.session_state.messages.append({"role": "user", "content": query_text})
      _render_message("user", query_text, avatar=...)
      start = time.time()
      with st.chat_message("assistant", avatar=...):
          with st.spinner(...):
              try:
                  ...
              except Exception as e:
                  st.error(f"Error during query: {e}")
                  answer_text = "Sorry, something went wrong while processing your query."
              elapsed = time.time() - start
              st.caption(f"Responded in {elapsed:.2f}s")
      st.session_state.messages.append({"role": "assistant", "content": answer_text})
  \<close>
  \<open>elapsed\<close> is the difference of the two readings of the clock. The result is the
  session state when the function ends, and the exception that leaves it, if any: then
  the caption and the assistant message are not reached.
\<close>

definition process_query ::
  "builtins \<Rightarrow> 'w engine \<Rightarrow> pyfloat \<Rightarrow> string \<Rightarrow> 'w session \<Rightarrow> 'w session \<times> pyerr option" where
  "process_query B G elapsed query_text s =
     (let s1 = s\<lparr>messages := messages_append ''user'' (PStr query_text) (messages s),
                 page := page s @ render_message B ''user'' (PStr query_text) UserAvatar\<rparr>
      in case query_body B G query_text s1 of
           (body, s2) \<Rightarrow>
             (case try_except body
                     (\<lambda>e. ([ErrorBox (''Error during query: '' @ err_str e)],
                            Inr (PStr fallback_message))) of
                (xs, Inl e) \<Rightarrow>
                  (s2\<lparr>page := page s2 @ [ChatMessage ''assistant'' AssistantAvatar xs]\<rparr>, Some e)
              | (xs, Inr answer_text) \<Rightarrow>
                  (s2\<lparr>page := page s2 @
                          [ChatMessage ''assistant'' AssistantAvatar
                             (xs @ [Caption (''Responded in '' @ format_float_f 2 elapsed @ ''s'')])],
                       messages := messages_append ''assistant'' answer_text (messages s2)\<rparr>,
                   None)))"

section \<open>PipelineHandleCache: \<^verbatim>\<open>_init_workflow_sync\<close>\<close>

text \<open>
  The function under the decorator is from the source:
  \<^verbatim>\<open>
  @st.cache_resource(show_spinner=False)
  def _init_workflow_sync():
      return asyncio.run(setup_hybrid_rag())
  \<close>
  The decorator \<^verbatim>\<open>@st.cache_resource\<close> and the \<^verbatim>\<open>.clear()\<close> it adds belong to the
  Streamlit library, which is not part of the sources.
\<close>

text \<open>
  Modelled from the spec: the state of the cache that \<^verbatim>\<open>@st.cache_resource\<close> keeps for
  \<^verbatim>\<open>_init_workflow_sync\<close>, which is missing from the sources. Section 4.3 of the
  specification: the cache holds at most one handle. \<open>init_calls\<close> counts the invocations
  of the external initializer.
\<close>

record 'w cache =
  cached :: "'w option"
  init_calls :: nat

text \<open>
  Modelled from the spec: \<^verbatim>\<open>_init_workflow_sync()\<close> under \<^verbatim>\<open>@st.cache_resource\<close>,
  whose memoisation is missing from the sources. Section 4.3 of the specification:
  \<open>get\<close> returns the existing handle if one exists; otherwise it invokes the external
  initializer exactly once and stores the result for subsequent calls; if the
  initialization fails, the failure surfaces to the caller and no handle is cached.
\<close>

definition init_workflow_sync :: "'w engine \<Rightarrow> 'w cache \<Rightarrow> (pyerr + 'w) \<times> 'w cache" where
  "init_workflow_sync G c =
     (case cached c of
        Some w \<Rightarrow> (Inr w, c)
      | None \<Rightarrow>
          (case setup_hybrid_rag G (init_calls c) of
             Inl e \<Rightarrow> (Inl e, c\<lparr>init_calls := Suc (init_calls c)\<rparr>)
           | Inr w \<Rightarrow> (Inr w, c\<lparr>cached := Some w, init_calls := Suc (init_calls c)\<rparr>)))"

text \<open>
  Modelled from the spec: \<^verbatim>\<open>_init_workflow_sync.clear()\<close>, which is missing from the
  sources. Section 4.3 of the specification: \<open>invalidate\<close> drops the stored handle.
\<close>

definition init_workflow_sync_clear :: "'w cache \<Rightarrow> 'w cache" where
  "init_workflow_sync_clear c = c\<lparr>cached := None\<rparr>"

text \<open>
  The Reinitialize button:
  \<^verbatim>\<open>
  _init_workflow_sync.clear()
  try:
      with st.spinner(...):
          st.session_state.workflow = _init_workflow_sync()
  except Exception as e:
      st.error(f"Failed to reinitialize: {e}")
  \<close>
\<close>

definition reinitialize :: "'w engine \<Rightarrow> 'w cache \<times> 'w session \<Rightarrow> 'w cache \<times> 'w session" where
  "reinitialize G cs =
     (case cs of (c, s) \<Rightarrow>
        (case init_workflow_sync G (init_workflow_sync_clear c) of
           (Inr w, c') \<Rightarrow> (c', s\<lparr>workflow := w\<rparr>)
         | (Inl e, c') \<Rightarrow>
             if is_exception e
             then (c', s\<lparr>page := page s @ [ErrorBox (''Failed to reinitialize: '' @ err_str e)]\<rparr>)
             else (c', s)))"

section \<open>The user's actions\<close>

definition EXAMPLE_QUERIES :: "string list" where
  "EXAMPLE_QUERIES =
     [''Which city has the highest population?'',
      ''What state is Houston located in?'',
      ''Where is the Space Needle located?'',
      ''List places to visit in Miami.'',
      ''How do people in Chicago get around?'',
      ''What is the historical name of Los Angeles?'']"

text \<open>
  What a run of the script does to the cache and to the session state, by the widget the
  user has acted on: one of the example buttons (by its index), the chat input (which
  counts only when its text is not empty), the Clear Chat button, the Reinitialize
  button, or none of them. The state is the one the run ends with, also when an
  exception that is not caught ends it.
\<close>

datatype action = ChipClick nat | ChatInput string | ClearChat | Reinitialize | Idle

fun handle_action ::
  "builtins \<Rightarrow> 'w engine \<Rightarrow> pyfloat \<Rightarrow> action \<Rightarrow> 'w cache \<times> 'w session \<Rightarrow> 'w cache \<times> 'w session" where
  "handle_action B G elapsed (ChipClick i) (c, s) =
     (if i < length EXAMPLE_QUERIES
      then (c, fst (process_query B G elapsed (EXAMPLE_QUERIES ! i) s))
      else (c, s))"
| "handle_action B G elapsed (ChatInput q) (c, s) =
     (if q \<noteq> [] then (c, fst (process_query B G elapsed q s)) else (c, s))"
| "handle_action B G elapsed ClearChat (c, s) = (c, s\<lparr>messages := messages_clear (messages s)\<rparr>)"
| "handle_action B G elapsed Reinitialize (c, s) = reinitialize G (c, s)"
| "handle_action B G elapsed Idle (c, s) = (c, s)"

section \<open>Definitions used to state the properties\<close>

text \<open>
  An instance of the builtins for the examples: tabular rendering succeeds or fails as
  \<open>ok\<close> says, the text of a float, a list or a dictionary is a placeholder, their
  conversion and \<^verbatim>\<open>st.write\<close> do not raise, and the limit on the digits of an
  integer is the interpreter's default.
\<close>

definition example_builtins :: "bool \<Rightarrow> builtins" where
  "example_builtins ok =
     \<lparr>str_other = (\<lambda>v. ''<repr>''), tabular_ok = (\<lambda>v. ok),
      str_other_raises = (\<lambda>v. None), max_str_digits = 4300, write_raises = (\<lambda>v. None)\<rparr>"

text \<open>
  The field \<open>k\<close> of a record when it is present and truthy, and \<open>alt\<close> otherwise.
\<close>

definition preferred_field :: "pydict \<Rightarrow> string \<Rightarrow> pyval \<Rightarrow> pyval" where
  "preferred_field d k alt =
     (case map_of d k of
        None \<Rightarrow> alt
      | Some v \<Rightarrow> if py_truthy v then v else alt)"

text \<open>
  A field that cannot put anything but a string into the answer: absent, falsy, or a
  string.
\<close>

definition textual_field :: "pydict \<Rightarrow> string \<Rightarrow> bool" where
  "textual_field d k =
     (case map_of d k of
        None \<Rightarrow> True
      | Some v \<Rightarrow> if py_truthy v then is_str v else True)"

fun textual_answer :: "pyval \<Rightarrow> bool" where
  "textual_answer (PDict d) = (textual_field d ''answer'' \<and> textual_field d ''result'')"
| "textual_answer v = True"

text \<open>A field of the payload that is present and truthy (for a text or a list: not empty).\<close>

definition nonempty_field :: "pydict \<Rightarrow> string \<Rightarrow> bool" where
  "nonempty_field payload k = (case map_of payload k of None \<Rightarrow> False | Some v \<Rightarrow> py_truthy v)"

text \<open>
  What the sources section shows for the source record \<open>d\<close> numbered \<open>i\<close>: the header
  line with the title and the score label, then the link line and the snippet line.
\<close>

definition source_title :: "builtins \<Rightarrow> nat \<Rightarrow> pydict \<Rightarrow> string" where
  "source_title B i d = py_str B (preferred_field d ''title'' (PStr (''Source '' @ nat_str i)))"

definition score_label :: "pydict \<Rightarrow> string" where
  "score_label d =
     (case map_of d ''score'' of
        None \<Rightarrow> []
      | Some sc \<Rightarrow>
          if is_int_or_float sc
          then (case format_f 3 sc of Inl e \<Rightarrow> [] | Inr s \<Rightarrow> '' **(score: '' @ s @ '')**'')
          else [])"

definition link_line :: "builtins \<Rightarrow> pydict \<Rightarrow> ui list" where
  "link_line B d =
     (let u = preferred_field d ''url'' (PStr '''')
      in if py_truthy u then [Markdown (PStr (''- Link: '' @ py_str B u))] else [])"

definition snippet_line :: "builtins \<Rightarrow> pydict \<Rightarrow> ui list" where
  "snippet_line B d =
     (let s = preferred_field d ''snippet'' (preferred_field d ''text'' (PStr ''''))
      in if py_truthy s then [Markdown (PStr (''> '' @ py_str B s))] else [])"

definition source_lines :: "builtins \<Rightarrow> nat \<Rightarrow> pydict \<Rightarrow> ui list" where
  "source_lines B i d =
     Markdown (PStr (''**'' @ nat_str i @ ''. '' @ source_title B i d @ ''**'' @ score_label d))
     # link_line B d @ snippet_line B d"

text \<open>
  A score that \<^verbatim>\<open>.3f\<close> can format: anything but an integer too large for a float.
\<close>

definition score_in_range :: "pydict \<Rightarrow> bool" where
  "score_in_range d =
     (case map_of d ''score'' of
        Some (PInt i) \<Rightarrow> (case int_to_float i of Inl e \<Rightarrow> False | Inr f \<Rightarrow> True)
      | _ \<Rightarrow> True)"

text \<open>A number with a finite value: a boolean, an integer, or a float other than nan and the infinities.\<close>

fun finite_number :: "pyval \<Rightarrow> bool" where
  "finite_number (PBool b) = True"
| "finite_number (PInt i) = True"
| "finite_number (PFloat (Finite m e)) = True"
| "finite_number (PFloat NegZero) = True"
| "finite_number v = False"

text \<open>
  A numeral with exactly three decimals: an optional minus sign, at least one digit, the
  point, three digits.
\<close>

definition is_digit :: "char \<Rightarrow> bool" where
  "is_digit c = (c \<in> set ''0123456789'')"

fun strip_sign :: "string \<Rightarrow> string" where
  "strip_sign [] = []"
| "strip_sign (c # s) = (if c = CHR ''-'' then s else c # s)"

definition three_decimals :: "string \<Rightarrow> bool" where
  "three_decimals s =
     (case rev (strip_sign s) of
        d3 # d2 # d1 # dot # ip \<Rightarrow>
          dot = CHR ''.'' \<and> is_digit d1 \<and> is_digit d2 \<and> is_digit d3 \<and>
          ip \<noteq> [] \<and> list_all is_digit ip
      | _ \<Rightarrow> False)"

text \<open>
  One turn of the exported transcript: the role label in bold, an empty line, the
  content, and the end of the line.
\<close>

definition transcript_entry :: "builtins \<Rightarrow> turn \<Rightarrow> string" where
  "transcript_entry B m =
     (if role m = ''user'' then ''**You:**'' else ''**Assistant:**'')
     @ nl @ nl @ py_str B (content m) @ nl"

text \<open>
  An engine for the examples: the initializer returns the handle \<open>0\<close>, and the query
  operation has the given outcome whatever the query.
\<close>

definition example_engine :: "pyerr + pyval \<Rightarrow> nat engine" where
  "example_engine outcome =
     \<lparr>setup_hybrid_rag = (\<lambda>n. Inr 0), query_hybrid_rag = (\<lambda>n w q. outcome)\<rparr>"

text \<open>
  An engine whose initializer fails with the given error on its first invocation and
  returns the number of the invocation as the handle afterwards.
\<close>

definition flaky_engine :: "pyerr \<Rightarrow> nat engine" where
  "flaky_engine e =
     \<lparr>setup_hybrid_rag = (\<lambda>n. if n = 0 then Inl e else Inr n),
      query_hybrid_rag = (\<lambda>n w q. Inr (PStr q))\<rparr>"


definition empty_session :: "nat session" where
  "empty_session = \<lparr>messages = [], workflow = 0, page = [], query_calls = []\<rparr>"

text \<open>
  A payload whose sections before the sources can be written: the answer and the SQL
  have a text, and the rows can be shown as a table or written raw.
\<close>

definition renderable :: "builtins \<Rightarrow> pydict \<Rightarrow> bool" where
  "renderable B payload =
     (py_str_raises B (dict_get_default payload ''answer'' (PStr '''')) = None \<and>
      (nonempty_field payload ''sql'' \<longrightarrow> py_str_raises B (dict_get payload ''sql'') = None) \<and>
      (nonempty_field payload ''rows'' \<longrightarrow>
         tabular_ok B (dict_get payload ''rows'') \<or>
         write_raises B (dict_get payload ''rows'') = None))"

text \<open>
  A source record that the loop can show: its score can be formatted, and its title, its
  url and its snippet (or text) have a text, as every string has.
\<close>

definition source_ok :: "builtins \<Rightarrow> pydict \<Rightarrow> bool" where
  "source_ok B d =
     (score_in_range d \<and>
      py_str_raises B (preferred_field d ''title'' (PStr '''')) = None \<and>
      py_str_raises B (preferred_field d ''url'' (PStr '''')) = None \<and>
      py_str_raises B (preferred_field d ''snippet'' (preferred_field d ''text'' (PStr ''''))) = None)"

text \<open>An integer with 4301 digits, one more than the default limit allows in a text.\<close>

definition huge_int :: int where
  "huge_int = 10 ^ 4300"

section \<open>Properties of the numerals\<close>

lemma nat_str_nonempty: "nat_str n \<noteq> []"
  by (subst nat_str.simps) simp

lemma digit_char_is_digit: "is_digit (digit_char d)"
  by (simp add: digit_char_def is_digit_def)

lemma nat_str_digits: "list_all is_digit (nat_str n)"
proof (induction n rule: nat_str.induct)
  case (1 n)
  show ?case
    by (subst nat_str.simps) (use 1 in \<open>simp add: digit_char_is_digit\<close>)
qed

lemma nat_str_length_3: "n < 1000 \<Longrightarrow> length (nat_str n) \<le> 3"
proof -
  assume n: "n < 1000"
  have a: "\<And>m. m < 10 \<Longrightarrow> length (nat_str m) = 1"
    by (subst nat_str.simps) simp
  have b: "\<And>m. m < 100 \<Longrightarrow> length (nat_str m) \<le> 2"
    by (subst nat_str.simps) (simp add: a)
  show ?thesis
    using n by (subst nat_str.simps) (auto simp: a intro: b le_SucI)
qed

text \<open>A number that is at least \<open>10 ^ k\<close> has more than \<open>k\<close> digits.\<close>

lemma nat_str_length_gt: "10 ^ k \<le> n \<Longrightarrow> k < length (nat_str n)"
proof (induction k arbitrary: n)
  case 0
  have "0 < length (nat_str n)"
    using nat_str_nonempty [of n] by simp
  then show ?case .
next
  case (Suc k)
  have pos: "(1::nat) \<le> 10 ^ k" by simp
  from Suc.prems have big: "10 * 10 ^ k \<le> n" by simp
  from big pos have ge: "\<not> n < 10" by linarith
  from big have "10 ^ k \<le> n div 10" by (simp add: less_eq_div_iff_mult_less_eq mult.commute)
  then have "k < length (nat_str (n div 10))" by (rule Suc.IH)
  moreover have "nat_str n = nat_str (n div 10) @ [digit_char (n mod 10)]"
    using ge by (subst nat_str.simps) simp
  ultimately show ?case by simp
qed

text \<open>
  With a limit \<open>k\<close> on the digits, the integer \<open>10 ^ k\<close>, which has \<open>k + 1\<close> digits,
  cannot be converted to text.
\<close>

lemma py_str_raises_power:
  assumes "max_str_digits B = k" "0 < k"
  shows "py_str_raises B (PInt (10 ^ k)) = Some (int_str_error k)"
proof -
  have "nat \<bar>(10::int) ^ k\<bar> = 10 ^ k"
    by (simp add: nat_power_eq)
  moreover have "k < length (nat_str (10 ^ k))"
    by (rule nat_str_length_gt) simp
  ultimately show ?thesis
    using assms by (simp only: py_str_raises.simps) simp
qed

lemma py_str_raises_small:
  assumes "\<bar>i\<bar> < 1000" "max_str_digits B = 4300"
  shows "py_str_raises B (PInt i) = None"
proof -
  from assms(1) have "nat \<bar>i\<bar> < 1000" by linarith
  then have "length (nat_str (nat \<bar>i\<bar>)) \<le> 3" by (rule nat_str_length_3)
  then have "\<not> 4300 < length (nat_str (nat \<bar>i\<bar>))" by linarith
  with assms(2) show ?thesis by simp
qed

lemma py_str_call_str [simp]: "py_str_call B (PStr s) = Inr s"
  by (simp add: py_str_call_def)

lemma py_str_call_ok: "py_str_raises B v = None \<Longrightarrow> py_str_call B v = Inr (py_str B v)"
  by (simp add: py_str_call_def)

lemma py_str_call_raises: "py_str_raises B v = Some e \<Longrightarrow> py_str_call B v = Inl e"
  by (simp add: py_str_call_def)

lemma py_str_raises_huge:
  "max_str_digits B = 4300 \<Longrightarrow> py_str_raises B (PInt huge_int) = Some (int_str_error 4300)"
  unfolding huge_int_def by (rule py_str_raises_power) simp_all

section \<open>Properties of the normalizer\<close>

lemma map_of_dict_set: "map_of (dict_set d k v) = (map_of d)(k \<mapsto> v)"
  by (induction d k v rule: dict_set.induct) (auto simp: fun_eq_iff)

lemma copy_if_present_eq:
  "copy_if_present result k n =
     Inr (case map_of result k of None \<Rightarrow> n | Some v \<Rightarrow> dict_set n k v)"
  by (auto simp: copy_if_present_def py_in_def py_getitem_def bind_err_def split: option.splits)

text \<open>
  On a dictionary no subscript of \<^verbatim>\<open>_normalize_result\<close> raises, and the returned
  dictionary holds the answer and the fields that were copied.
\<close>

lemma normalize_result_dict:
  "\<exists>p. normalize_result B (PDict d) = Inr p \<and>
       map_of p ''answer'' =
         Some (py_or (py_or (dict_get d ''answer'') (dict_get d ''result'')) (PStr '''')) \<and>
       map_of p ''sources'' =
         (case map_of d ''sources'' of
            None \<Rightarrow> None
          | Some v \<Rightarrow> if is_list v then Some v else None) \<and>
       map_of p ''sql'' = map_of d ''sql'' \<and>
       map_of p ''rows'' = map_of d ''rows''"
  by (simp add: copy_if_present_eq bind_err_def py_in_def py_getitem_def Let_def
        map_of_dict_set split: option.splits)

lemma py_or_preferred:
  "py_or (py_or (dict_get d ''answer'') (dict_get d ''result'')) (PStr '''') =
     preferred_field d ''answer'' (preferred_field d ''result'' (PStr ''''))"
  by (simp add: py_or_def dict_get_def dict_get_default_def preferred_field_def
        split: option.splits)

text \<open>
  On a value that is neither a string nor a dictionary the call does what \<^verbatim>\<open>str\<close>
  does: it wraps the text, or raises what \<^verbatim>\<open>str\<close> raises.
\<close>

lemma normalize_result_other:
  "\<not> is_str r \<Longrightarrow> \<not> is_dict r \<Longrightarrow>
   normalize_result B r =
     (case py_str_raises B r of
        Some e \<Rightarrow> Inl e
      | None \<Rightarrow> Inr [(''answer'', PStr (py_str B r))])"
  by (cases r) (simp_all add: py_str_call_def bind_err_def split: option.splits)

text \<open>
  Whenever the call returns, what it returns under "answer" is never \<^verbatim>\<open>None\<close>.
\<close>

lemma normalize_result_answer:
  assumes "normalize_result B r = Inr p"
  shows "\<exists>a. map_of p ''answer'' = Some a \<and> a \<noteq> PNone \<and> (textual_answer r \<longrightarrow> is_str a) \<and>
             (\<not> is_str r \<and> \<not> is_dict r \<longrightarrow> p = [(''answer'', PStr (py_str B r))])"
proof (cases "is_dict r")
  case True
  then obtain d where r: "r = PDict d" by (cases r) simp_all
  obtain p' where p: "normalize_result B (PDict d) = Inr p'"
    and a: "map_of p' ''answer'' =
           Some (py_or (py_or (dict_get d ''answer'') (dict_get d ''result'')) (PStr ''''))"
    using normalize_result_dict [of B d] by blast
  let ?a = "preferred_field d ''answer'' (preferred_field d ''result'' (PStr ''''))"
  have "?a \<noteq> PNone"
    by (auto simp: preferred_field_def split: option.splits)
  moreover have "textual_answer r \<longrightarrow> is_str ?a"
    using r by (auto simp: preferred_field_def textual_field_def split: option.splits)
  ultimately show ?thesis
    using r p a assms by (simp add: py_or_preferred)
next
  case False
  show ?thesis
  proof (cases "is_str r")
    case True
    then obtain s where "r = PStr s" by (cases r) simp_all
    with assms show ?thesis by auto
  next
    case notstr: False
    from assms normalize_result_other [OF notstr False, of B]
    have "p = [(''answer'', PStr (py_str B r))]"
      by (simp split: option.splits)
    with False notstr show ?thesis by simp
  qed
qed

lemma normalize_result_returns:
  "is_str r \<or> is_dict r \<or> py_str_raises B r = None \<Longrightarrow> \<exists>p. normalize_result B r = Inr p"
proof (cases "is_dict r")
  case True
  then obtain d where "r = PDict d" by (cases r) simp_all
  then show ?thesis using normalize_result_dict [of B d] by blast
next
  case False
  assume h: "is_str r \<or> is_dict r \<or> py_str_raises B r = None"
  show ?thesis
  proof (cases "is_str r")
    case True
    then obtain s where "r = PStr s" by (cases r) simp_all
    then show ?thesis by simp
  next
    case notstr: False
    with h False have "py_str_raises B r = None" by simp
    with normalize_result_other [OF notstr False, of B] show ?thesis by simp
  qed
qed

text \<open>
  C2, as the specification states it, fails: the record
  \<^verbatim>\<open>{"answer": "", "result": "42"}\<close> has its "answer" field present, and the
  normalized answer is not that field but "42". The fallback of
  \<^verbatim>\<open>result.get("answer") or result.get("result") or ""\<close> is taken on a falsy field,
  not only on an absent one.
\<close>

theorem normalize_answer_fallback_counterexample:
  "map_of [(''answer'', PStr ''''), (''result'', PStr ''42'')] ''answer'' = Some (PStr '''') \<and>
   normalize_result (example_builtins True) (PDict [(''answer'', PStr ''''), (''result'', PStr ''42'')])
     = Inr [(''answer'', PStr ''42'')] \<and>
   PStr ''42'' \<noteq> PStr ''''"
  by (simp add: copy_if_present_eq bind_err_def py_in_def py_or_def dict_get_def
        dict_get_default_def)

text \<open>
  C2, amended: for every plain-text input \<open>s\<close> the result is exactly
  \<^verbatim>\<open>{"answer": s}\<close>; for every record the call returns, and the answer is the
  record's "answer" field when that field is present and truthy, otherwise the "result"
  field when present and truthy, otherwise the empty string.
\<close>

theorem normalize_answer:
  "normalize_result B (PStr s) = Inr [(''answer'', PStr s)] \<and>
   (\<exists>p. normalize_result B (PDict d) = Inr p \<and>
        map_of p ''answer'' =
          Some (preferred_field d ''answer'' (preferred_field d ''result'' (PStr ''''))))"
proof -
  obtain p where "normalize_result B (PDict d) = Inr p"
    and "map_of p ''answer'' =
           Some (py_or (py_or (dict_get d ''answer'') (dict_get d ''result'')) (PStr ''''))"
    using normalize_result_dict [of B d] by blast
  then show ?thesis
    by (simp add: py_or_preferred)
qed

theorem normalize_answer_witness:
  "normalize_result (example_builtins True) (PStr ''hello'') = Inr [(''answer'', PStr ''hello'')] \<and>
   (\<exists>p. normalize_result (example_builtins True)
          (PDict [(''answer'', PNone), (''result'', PStr ''42''), (''rows'', PList [])]) = Inr p \<and>
        map_of p ''answer'' = Some (PStr ''42''))"
  using normalize_answer [of "example_builtins True" "''hello''"
      "[(''answer'', PNone), (''result'', PStr ''42''), (''rows'', PList [])]"]
  by (simp add: preferred_field_def)

text \<open>
  C3, as the specification states it, fails twice: for the record \<^verbatim>\<open>{"answer": 42}\<close>
  the answer field of the payload is the integer 42, not a string; and for the integer
  \<open>10 ^ 4300\<close>, which is neither text nor a record, the conversion \<^verbatim>\<open>str(result)\<close>
  raises \<^verbatim>\<open>ValueError\<close> under the interpreter's default limit of 4300 digits, and so
  does the call.
\<close>

theorem normalize_answer_string_counterexample:
  "normalize_result (example_builtins True) (PDict [(''answer'', PInt 42)])
     = Inr [(''answer'', PInt 42)] \<and>
   \<not> is_str (PInt 42) \<and>
   normalize_result (example_builtins True) (PInt huge_int) = Inl (int_str_error 4300)"
proof -
  have "max_str_digits (example_builtins True) = 4300"
    by (simp add: example_builtins_def)
  then have "py_str_raises (example_builtins True) (PInt huge_int) = Some (int_str_error 4300)"
    by (rule py_str_raises_huge)
  then have "normalize_result (example_builtins True) (PInt huge_int) = Inl (int_str_error 4300)"
    by (simp add: py_str_call_def bind_err_def)
  then show ?thesis
    by (simp add: copy_if_present_eq bind_err_def py_in_def py_or_def dict_get_def
          dict_get_default_def)
qed

text \<open>
  C3, amended: \<^verbatim>\<open>_normalize_result\<close> returns, without raising, for every text, for
  every record, and for every other value that \<^verbatim>\<open>str\<close> can convert; on a value that
  is neither text nor a record and that \<^verbatim>\<open>str\<close> cannot convert it raises what
  \<^verbatim>\<open>str\<close> raises. The answer field of a returned payload is always present and
  never \<^verbatim>\<open>None\<close>; it is a string whenever the input is not a record, or is a record
  whose "answer" and "result" fields are each absent, falsy or a string; and an input
  that is neither plain text nor a record is wrapped as \<^verbatim>\<open>{"answer": str(input)}\<close>.
\<close>

theorem normalize_total:
  "(is_str r \<or> is_dict r \<or> py_str_raises B r = None \<longrightarrow>
      (\<exists>p a. normalize_result B r = Inr p \<and> map_of p ''answer'' = Some a \<and> a \<noteq> PNone \<and>
             (textual_answer r \<longrightarrow> is_str a) \<and>
             (\<not> is_str r \<and> \<not> is_dict r \<longrightarrow> p = [(''answer'', PStr (py_str B r))]))) \<and>
   (\<not> is_str r \<and> \<not> is_dict r \<and> py_str_raises B r = Some e \<longrightarrow> normalize_result B r = Inl e)"
proof (intro conjI impI)
  assume "is_str r \<or> is_dict r \<or> py_str_raises B r = None"
  then obtain p where p: "normalize_result B r = Inr p"
    using normalize_result_returns by blast
  with normalize_result_answer [OF p]
  show "\<exists>p a. normalize_result B r = Inr p \<and> map_of p ''answer'' = Some a \<and> a \<noteq> PNone \<and>
             (textual_answer r \<longrightarrow> is_str a) \<and>
             (\<not> is_str r \<and> \<not> is_dict r \<longrightarrow> p = [(''answer'', PStr (py_str B r))])"
    by blast
next
  assume "\<not> is_str r \<and> \<not> is_dict r \<and> py_str_raises B r = Some e"
  then show "normalize_result B r = Inl e"
    using normalize_result_other [of r B] by simp
qed

theorem normalize_total_witness:
  "(\<exists>p a. normalize_result (example_builtins True) (PInt (- 7)) = Inr p \<and>
         map_of p ''answer'' = Some a \<and> a \<noteq> PNone \<and> is_str a \<and>
         p = [(''answer'', PStr ''-7'')]) \<and>
   normalize_result (example_builtins True) (PInt huge_int) = Inl (int_str_error 4300)"
proof -
  let ?B = "example_builtins True"
  have m: "max_str_digits ?B = 4300"
    by (simp add: example_builtins_def)
  have small: "py_str_raises ?B (PInt (- 7)) = None"
    by (rule py_str_raises_small) (simp_all add: m)
  have huge: "py_str_raises ?B (PInt huge_int) = Some (int_str_error 4300)"
    using m by (rule py_str_raises_huge)
  from normalize_total [of "PInt (- 7)" ?B] small
  have "\<exists>p a. normalize_result ?B (PInt (- 7)) = Inr p \<and>
         map_of p ''answer'' = Some a \<and> a \<noteq> PNone \<and> is_str a \<and>
         p = [(''answer'', PStr ''-7'')]"
    by (simp add: int_str_def nat_str.simps digit_char_def)
  moreover from normalize_total [of "PInt huge_int" ?B "int_str_error 4300"] huge
  have "normalize_result ?B (PInt huge_int) = Inl (int_str_error 4300)"
    by simp
  ultimately show ?thesis by blast
qed

text \<open>
  C6: for every record, \<^verbatim>\<open>_normalize_result\<close> returns without raising; the
  payload has a "sources" field if and only if the record has one and it is a list, and
  then it is that list, so that a value of any other type is dropped; the "sql" and
  "rows" fields of the payload are exactly those of the record, whatever their values.
\<close>

theorem normalize_optional_fields:
  "\<exists>p. normalize_result B (PDict d) = Inr p \<and>
       map_of p ''sources'' =
         (case map_of d ''sources'' of
            None \<Rightarrow> None
          | Some v \<Rightarrow> if is_list v then Some v else None) \<and>
       map_of p ''sql'' = map_of d ''sql'' \<and>
       map_of p ''rows'' = map_of d ''rows''"
  using normalize_result_dict [of B d] by blast

theorem normalize_optional_fields_witness:
  "\<exists>p. normalize_result (example_builtins True)
          (PDict [(''sources'', PStr ''a.pdf''), (''sql'', PNone), (''rows'', PInt 3)]) = Inr p \<and>
       map_of p ''sources'' = None \<and>
       map_of p ''sql'' = Some PNone \<and>
       map_of p ''rows'' = Some (PInt 3)"
  using normalize_optional_fields [of "example_builtins True"
      "[(''sources'', PStr ''a.pdf''), (''sql'', PNone), (''rows'', PInt 3)]"]
  by simp

section \<open>Properties of the renderer\<close>

lemma pad_zeros_3:
  assumes "length s \<le> 3" "list_all is_digit s"
  shows "\<exists>d1 d2 d3. pad_zeros 3 s = [d1, d2, d3] \<and> is_digit d1 \<and> is_digit d2 \<and> is_digit d3"
proof -
  have z: "is_digit (CHR ''0'')" by (simp add: is_digit_def)
  have l: "length (pad_zeros 3 s) = 3" using assms by (simp add: pad_zeros_def)
  have d: "list_all is_digit (pad_zeros 3 s)"
    using assms z by (auto simp: pad_zeros_def list_all_iff)
  from l obtain d1 d2 d3 where "pad_zeros 3 s = [d1, d2, d3]"
    by (auto simp: length_Suc_conv numeral_3_eq_3)
  with d show ?thesis by simp
qed

lemma fixed_digits_3:
  "\<exists>ip d1 d2 d3. fixed_digits 3 n = ip @ [CHR ''.'', d1, d2, d3] \<and> ip \<noteq> [] \<and>
     list_all is_digit ip \<and> is_digit d1 \<and> is_digit d2 \<and> is_digit d3"
proof -
  have "n mod 10 ^ 3 < 1000" by simp
  then have "length (nat_str (n mod 10 ^ 3)) \<le> 3" by (rule nat_str_length_3)
  then obtain d1 d2 d3 where "pad_zeros 3 (nat_str (n mod 10 ^ 3)) = [d1, d2, d3]"
      "is_digit d1" "is_digit d2" "is_digit d3"
    using pad_zeros_3 [OF _ nat_str_digits] by blast
  then show ?thesis
    by (simp add: fixed_digits_def nat_str_nonempty nat_str_digits)
qed

lemma three_decimals_fixed:
  "three_decimals (fixed_digits 3 n)" "three_decimals (CHR ''-'' # fixed_digits 3 n)"
proof -
  obtain ip d1 d2 d3 where f: "fixed_digits 3 n = ip @ [CHR ''.'', d1, d2, d3]" and ne: "ip \<noteq> []"
    and d: "list_all is_digit ip" "is_digit d1" "is_digit d2" "is_digit d3"
    using fixed_digits_3 [of n] by blast
  from ne obtain c cs where ip: "ip = c # cs" by (cases ip) auto
  with d have "is_digit c" by simp
  then have c: "c \<noteq> CHR ''-''" by (auto simp: is_digit_def)
  have "list_all is_digit (rev ip)" using d by (simp add: list_all_iff)
  moreover have "rev ip \<noteq> []" using ne by simp
  ultimately show "three_decimals (fixed_digits 3 n)" "three_decimals (CHR ''-'' # fixed_digits 3 n)"
    using f ip c d by (simp_all add: three_decimals_def)
qed

lemma format_float_f_three_decimals:
  "finite_number (PFloat f) \<Longrightarrow> three_decimals (format_float_f 3 f)"
  by (cases f) (simp_all add: three_decimals_fixed)

lemma bit_length_small: "bit_length 0 = 0" "bit_length (Suc 0) = 1"
  by (simp_all add: bit_length.simps)

lemma int_to_float_bool: "int_to_float (if b then 1 else 0) = Inr (Finite (if b then 1 else 0) 0)"
  by (simp add: int_to_float_def bit_length_small)

lemma int_to_float_finite: "int_to_float i = Inr f \<Longrightarrow> finite_number (PFloat f)"
  by (auto simp: int_to_float_def Let_def split: if_splits)

lemma format_f_three_decimals:
  "finite_number sc \<Longrightarrow> format_f 3 sc = Inr s \<Longrightarrow> three_decimals s"
proof (induction sc rule: finite_number.induct)
  case (1 b)
  then show ?case
    using format_float_f_three_decimals [of "Finite (if b then 1 else 0) 0"]
    by (simp add: int_to_float_bool bind_err_def)
next
  case (2 i)
  then show ?case
    using format_float_f_three_decimals int_to_float_finite [of i]
    by (auto simp: bind_err_def split: sum.splits)
qed (auto simp: three_decimals_fixed)

lemma key_truthy_eq: "key_truthy payload k = Inr (nonempty_field payload k)"
  by (auto simp: key_truthy_def nonempty_field_def py_in_def py_getitem_def bind_err_def split: option.splits)

text \<open>The three sections before the sources, each as what it writes and raises.\<close>

lemma sql_block_eq:
  "sql_block B payload =
     (if nonempty_field payload ''sql''
      then (case py_str_raises B (dict_get payload ''sql'') of
              Some e \<Rightarrow> ([Expander ''SQL used (debug)'' []], Some e)
            | None \<Rightarrow>
                ([Expander ''SQL used (debug)'' [Code (py_str B (dict_get payload ''sql'')) ''sql'']],
                 None))
      else ([], None))"
  by (auto simp: sql_block_def key_truthy_eq nonempty_field_def py_getitem_def in_expander_def
        emit_def dict_get_def dict_get_default_def bind_err_def py_str_call_def
      split: option.splits)

lemma rows_block_eq:
  "rows_block B payload =
     (if nonempty_field payload ''rows''
      then (if tabular_ok B (dict_get payload ''rows'')
            then ([Expander ''Structured results'' [Dataframe (dict_get payload ''rows'')]], None)
            else (case write_raises B (dict_get payload ''rows'') of
                    Some e \<Rightarrow> ([Expander ''Structured results'' []], Some e)
                  | None \<Rightarrow>
                      ([Expander ''Structured results'' [Write (dict_get payload ''rows'')]], None)))
      else ([], None))"
  by (auto simp: rows_block_def rows_table_def rows_fallback_def st_write_def key_truthy_eq
        nonempty_field_def py_getitem_def in_expander_def emit_def dict_get_def
        dict_get_default_def split: option.splits)

lemma render_rich_answer_eq:
  assumes "renderable B payload"
  shows "render_rich_answer B payload =
     (case sources_block B payload of
        (ys, r) \<Rightarrow>
          ([Markdown (dict_get_default payload ''answer'' (PStr ''''))]
           @ (if nonempty_field payload ''sql''
              then [Expander ''SQL used (debug)'' [Code (py_str B (dict_get payload ''sql'')) ''sql'']]
              else [])
           @ (if nonempty_field payload ''rows''
              then [Expander ''Structured results''
                      [if tabular_ok B (dict_get payload ''rows'')
                       then Dataframe (dict_get payload ''rows'')
                       else Write (dict_get payload ''rows'')]]
              else [])
           @ ys, r))"
  using assms
  unfolding render_rich_answer_def sql_block_eq rows_block_eq
  by (auto simp: renderable_def st_markdown_def then_ui_def emit_def split: prod.splits)

lemma sources_block_shape:
  "\<exists>body err. sources_block B payload =
       ((if nonempty_field payload ''sources''
         then [Expander ''Sources & citations'' body] else []), err) \<and>
       (\<not> nonempty_field payload ''sources'' \<longrightarrow> err = None)"
  by (auto simp: sources_block_def key_truthy_eq nonempty_field_def
        py_getitem_def in_expander_def emit_def split: option.splits prod.splits sum.splits)

lemma format_f_in_range:
  assumes "score_in_range d" "map_of d ''score'' = Some sc" "is_int_or_float sc"
  shows "\<exists>s. format_f 3 sc = Inr s"
  using assms
  by (cases sc) (auto simp: score_in_range_def int_to_float_bool bind_err_def split: sum.splits)

lemma py_or_dict_get: "py_or (dict_get d k) alt = preferred_field d k alt"
  by (simp add: py_or_def dict_get_def dict_get_default_def preferred_field_def split: option.splits)

lemma source_fields_dict:
  assumes "score_in_range d"
  shows "source_fields i (PDict d) =
           Inr (preferred_field d ''title'' (PStr (''Source '' @ nat_str i)),
                preferred_field d ''url'' (PStr ''''),
                preferred_field d ''snippet'' (preferred_field d ''text'' (PStr '''')),
                score_label d)"
proof -
  have meta: "(if is_int_or_float (dict_get d ''score'')
               then bind_err (format_f 3 (dict_get d ''score'')) (\<lambda>s. Inr ('' **(score: '' @ s @ '')**''))
               else Inr '''') = Inr (score_label d)"
  proof (cases "map_of d ''score''")
    case None
    then show ?thesis by (simp add: dict_get_def dict_get_default_def score_label_def)
  next
    case (Some sc)
    show ?thesis
    proof (cases "is_int_or_float sc")
      case True
      then obtain s where "format_f 3 sc = Inr s"
        using format_f_in_range [OF assms Some] by blast
      with Some True show ?thesis
        by (simp add: dict_get_def dict_get_default_def score_label_def bind_err_def)
    next
      case False
      with Some show ?thesis by (simp add: dict_get_def dict_get_default_def score_label_def)
    qed
  qed
  have snip: "(if py_truthy (dict_get d ''snippet'') then Inr (dict_get d ''snippet'')
               else bind_err (py_get (PDict d) ''text'') (\<lambda>s2. Inr (py_or s2 (PStr ''''))))
              = (Inr (preferred_field d ''snippet'' (preferred_field d ''text'' (PStr ''''))) :: pyerr + pyval)"
    by (simp add: py_or_def dict_get_def dict_get_default_def preferred_field_def bind_err_def
          split: option.splits)
  show ?thesis
    unfolding source_fields_def
    by (simp add: bind_err_def meta py_or_dict_get snip Let_def)
qed

lemma py_str_raises_preferred:
  "py_str_raises B (preferred_field d k (PStr a)) = py_str_raises B (preferred_field d k (PStr b))"
  by (simp add: preferred_field_def split: option.splits)

lemma source_item_dict:
  assumes "source_ok B d"
  shows "source_item B i (PDict d) = (source_lines B i d, None)"
proof -
  from assms have sc: "score_in_range d"
    and t0: "py_str_raises B (preferred_field d ''title'' (PStr '''')) = None"
    and u: "py_str_raises B (preferred_field d ''url'' (PStr '''')) = None"
    and n: "py_str_raises B (preferred_field d ''snippet'' (preferred_field d ''text'' (PStr ''''))) = None"
    by (simp_all add: source_ok_def)
  have t: "py_str_call B (preferred_field d ''title'' (PStr a)) =
             Inr (py_str B (preferred_field d ''title'' (PStr a)))" for a
    using t0 py_str_raises_preferred [of B d "''title''" a "''''"]
    by (simp add: py_str_call_def)
  show ?thesis
    unfolding source_item_def source_fields_dict [OF sc]
    by (simp add: t py_str_call_ok [OF u] py_str_call_ok [OF n]
          bind_err_def markdown_text_def then_ui_def emit_def source_lines_def
          source_title_def link_line_def snippet_line_def Let_def)
qed

lemma sources_loop_dicts:
  "list_all (source_ok B) ds \<Longrightarrow>
   sources_loop B i (map PDict ds) =
     (concat (map (\<lambda>(j, d). source_lines B j d) (zip [i..<i + length ds] ds)), None)"
proof (induction ds arbitrary: i)
  case Nil
  then show ?case by (simp add: emit_def)
next
  case (Cons d ds)
  have "[i..<i + length (d # ds)] = i # [Suc i..<Suc i + length ds]"
    by (subst upt_rec) simp
  with Cons show ?case
    by (simp add: source_item_dict then_ui_def emit_def)
qed

lemma sources_block_dicts:
  assumes "map_of payload ''sources'' = Some (PList (map PDict ds))"
    and "ds \<noteq> []"
    and "list_all (source_ok B) ds"
  shows "sources_block B payload =
          ([Expander ''Sources & citations''
              (concat (map (\<lambda>(i, d). source_lines B i d) (zip [1..<Suc (length ds)] ds)))], None)"
  using assms sources_loop_dicts [of B ds 1]
  by (simp add: sources_block_def key_truthy_eq nonempty_field_def py_getitem_def
        in_expander_def)

lemma huge_int_nonzero: "huge_int \<noteq> 0"
  unfolding huge_int_def by (rule power_not_zero) simp

text \<open>
  C4, as the specification states it, fails: for the payload
  \<^verbatim>\<open>{"answer": "ok", "sql": 10 ** 4300, "rows": [1]}\<close> the conversion
  \<^verbatim>\<open>str(payload["sql"])\<close> raises \<^verbatim>\<open>ValueError\<close> under the interpreter's default
  limit of 4300 digits: the answer and the empty SQL expander are written, the exception
  leaves the call, and no section for the rows is written although "rows" is present and
  not empty.
\<close>

theorem render_sections_counterexample:
  "render_rich_answer (example_builtins True)
     [(''answer'', PStr ''ok''), (''sql'', PInt huge_int), (''rows'', PList [PInt 1])] =
     ([Markdown (PStr ''ok''), Expander ''SQL used (debug)'' []], Some (int_str_error 4300)) \<and>
   nonempty_field
     [(''answer'', PStr ''ok''), (''sql'', PInt huge_int), (''rows'', PList [PInt 1])] ''rows''"
proof -
  have "max_str_digits (example_builtins True) = 4300"
    by (simp add: example_builtins_def)
  then have "py_str_raises (example_builtins True) (PInt huge_int) = Some (int_str_error 4300)"
    by (rule py_str_raises_huge)
  then show ?thesis
    unfolding render_rich_answer_def sql_block_eq rows_block_eq
    by (simp add: st_markdown_def then_ui_def emit_def nonempty_field_def dict_get_def
          dict_get_default_def huge_int_nonzero)
qed

text \<open>
  C4, amended: for every payload whose answer and SQL can be converted to text
  (\<^verbatim>\<open>str\<close> does not raise on them, as on every string) and whose rows, when the
  tabular rendering fails, \<^verbatim>\<open>st.write\<close> can show, \<^verbatim>\<open>_render_rich_answer\<close>
  writes, in this order: the answer as it is in the payload (the empty string when the
  payload has none); the expander "SQL used (debug)" holding the text of the SQL, if and
  only if "sql" is present and not empty; the expander "Structured results", if and only
  if "rows" is present and not empty, holding the table when the tabular rendering
  succeeds and the raw rows when it fails; the expander "Sources & citations", if and
  only if "sources" is present and not empty. "Not empty" is the truth value of the
  field, which for a text and for a list is that it is not empty. For such a payload an
  exception can only come from the sources section: without one the call returns
  normally, whether or not the tabular rendering fails.
\<close>

theorem render_sections:
  "(renderable B payload \<longrightarrow>
      (\<exists>body. render_rich_answer B payload =
         ([Markdown (dict_get_default payload ''answer'' (PStr ''''))]
          @ (if nonempty_field payload ''sql''
             then [Expander ''SQL used (debug)'' [Code (py_str B (dict_get payload ''sql'')) ''sql'']]
             else [])
          @ (if nonempty_field payload ''rows''
             then [Expander ''Structured results''
                     [if tabular_ok B (dict_get payload ''rows'')
                      then Dataframe (dict_get payload ''rows'')
                      else Write (dict_get payload ''rows'')]]
             else [])
          @ (if nonempty_field payload ''sources''
             then [Expander ''Sources & citations'' body]
             else []),
          snd (sources_block B payload))) \<and>
      (\<not> nonempty_field payload ''sources'' \<longrightarrow> snd (render_rich_answer B payload) = None)) \<and>
   (\<forall>k s. map_of payload k = Some (PStr s) \<longrightarrow> nonempty_field payload k = (s \<noteq> [])) \<and>
   (\<forall>k xs. map_of payload k = Some (PList xs) \<longrightarrow> nonempty_field payload k = (xs \<noteq> []))"
proof -
  obtain body err where s: "sources_block B payload =
       ((if nonempty_field payload ''sources''
         then [Expander ''Sources & citations'' body] else []), err)"
    and e: "\<not> nonempty_field payload ''sources'' \<longrightarrow> err = None"
    using sources_block_shape [of B payload] by blast
  have r: "render_rich_answer B payload =
      ([Markdown (dict_get_default payload ''answer'' (PStr ''''))]
       @ (if nonempty_field payload ''sql''
          then [Expander ''SQL used (debug)'' [Code (py_str B (dict_get payload ''sql'')) ''sql'']]
          else [])
       @ (if nonempty_field payload ''rows''
          then [Expander ''Structured results''
                  [if tabular_ok B (dict_get payload ''rows'')
                   then Dataframe (dict_get payload ''rows'')
                   else Write (dict_get payload ''rows'')]]
          else [])
       @ (if nonempty_field payload ''sources''
          then [Expander ''Sources & citations'' body]
          else []),
       snd (sources_block B payload))"
    if "renderable B payload"
    unfolding render_rich_answer_eq [OF that] s by simp
  have n: "\<not> nonempty_field payload ''sources'' \<longrightarrow> snd (render_rich_answer B payload) = None"
    if "renderable B payload"
    using e by (simp add: r [OF that] s)
  have t: "\<forall>k s. map_of payload k = Some (PStr s) \<longrightarrow> nonempty_field payload k = (s \<noteq> [])"
    and l: "\<forall>k xs. map_of payload k = Some (PList xs) \<longrightarrow> nonempty_field payload k = (xs \<noteq> [])"
    by (simp_all add: nonempty_field_def)
  from r n t l show ?thesis by blast
qed

theorem render_sections_witness:
  "render_rich_answer (example_builtins False)
     [(''answer'', PStr ''''), (''sql'', PStr ''SELECT 1''), (''rows'', PList [PInt 1]),
      (''sources'', PList [])] =
     ([Markdown (PStr ''''),
       Expander ''SQL used (debug)'' [Code ''SELECT 1'' ''sql''],
       Expander ''Structured results'' [Write (PList [PInt 1])]], None)"
proof -
  let ?P = "[(''answer'', PStr ''''), (''sql'', PStr ''SELECT 1''), (''rows'', PList [PInt 1]),
             (''sources'', PList [])]"
  let ?B = "example_builtins False"
  have h: "\<not> nonempty_field ?P ''sources''"
    by (simp add: nonempty_field_def)
  have tb: "\<And>v. tabular_ok ?B v = False"
    by (simp add: example_builtins_def)
  have ok: "renderable ?B ?P"
    by (simp add: renderable_def nonempty_field_def dict_get_def dict_get_default_def
          example_builtins_def)
  note T = render_sections [of ?B ?P]
  from T h ok have none: "snd (render_rich_answer ?B ?P) = None"
    by blast
  from T ok have eq: "render_rich_answer ?B ?P =
      ([Markdown (PStr ''''),
        Expander ''SQL used (debug)'' [Code ''SELECT 1'' ''sql''],
        Expander ''Structured results'' [Write (PList [PInt 1])]],
       snd (sources_block ?B ?P))"
    by (simp add: nonempty_field_def dict_get_def dict_get_default_def tb)
  from none eq have "snd (sources_block ?B ?P) = None"
    by simp
  with eq show ?thesis by simp
qed

text \<open>
  C5, as the specification states it, fails: for the one source
  \<^verbatim>\<open>{"score": float("nan"), "text": "abc"}\<close> the score is a float and its label reads
  "nan", which has no decimals, and a snippet line is written although the source has no
  "snippet" field.
\<close>

theorem render_sources_counterexample:
  "map_of [(''score'', PFloat NaN), (''text'', PStr ''abc'')] ''snippet'' = None \<and>
   render_rich_answer (example_builtins True)
     [(''answer'', PStr ''ok''),
      (''sources'', PList [PDict [(''score'', PFloat NaN), (''text'', PStr ''abc'')]])] =
     ([Markdown (PStr ''ok''),
       Expander ''Sources & citations''
         [Markdown (PStr ''**1. Source 1** **(score: nan)**''), Markdown (PStr ''> abc'')]],
      None) \<and>
   \<not> three_decimals ''nan''"
  unfolding render_rich_answer_def sql_block_eq rows_block_eq
  by (simp add: st_markdown_def sources_block_def key_truthy_eq nonempty_field_def
        py_getitem_def in_expander_def emit_def then_ui_def source_item_def source_fields_def
        markdown_text_def bind_err_def dict_get_def dict_get_default_def py_or_def
        nat_str.simps digit_char_def three_decimals_def)

text \<open>
  C5, amended: for every non-empty list of source records in which no score is an
  integer too large for a float and every title, url and snippet (or text) can be
  converted to text, as every string can, the sources section is written without raising
  and holds the sources numbered 1..N in their original order, each as its header line,
  then its link line, then its snippet line; when the sections before it can be written,
  it is the last thing the call writes and the call returns normally. For each source:
  the title in the header is "Source {index}" when the title is absent (and when it is
  falsy); a score that is a boolean, an integer or a float is labelled inline with its
  \<^verbatim>\<open>.3f\<close> format, which has exactly three decimals when the score is finite (nan
  and the infinities are written "nan", "inf" and "-inf"); an absent or non-numeric
  score gives no label; there is no link line when "url" is absent; there is no snippet
  line when both "snippet" and "text" are absent, the "text" field standing in for a
  missing or falsy "snippet".
\<close>

theorem render_sources:
  assumes "map_of payload ''sources'' = Some (PList (map PDict ds))"
    and "ds \<noteq> []"
    and "list_all (source_ok B) ds"
  shows "sources_block B payload =
           ([Expander ''Sources & citations''
               (concat (map (\<lambda>(i, d). source_lines B i d) (zip [1..<Suc (length ds)] ds)))],
            None) \<and>
         (renderable B payload \<longrightarrow>
            (\<exists>before. render_rich_answer B payload =
               (before @ [Expander ''Sources & citations''
                            (concat (map (\<lambda>(i, d). source_lines B i d)
                                         (zip [1..<Suc (length ds)] ds)))],
                None))) \<and>
         (\<forall>d\<in>set ds. \<forall>i.
            (\<exists>title. source_lines B i d =
                Markdown (PStr (''**'' @ nat_str i @ ''. '' @ title @ ''**'' @ score_label d))
                # link_line B d @ snippet_line B d \<and>
                (map_of d ''title'' = None \<longrightarrow> title = ''Source '' @ nat_str i)) \<and>
            (\<forall>sc. map_of d ''score'' = Some sc \<and> is_int_or_float sc \<longrightarrow>
               (\<exists>s. format_f 3 sc = Inr s \<and> score_label d = '' **(score: '' @ s @ '')**'' \<and>
                    (finite_number sc \<longrightarrow> three_decimals s))) \<and>
            ((case map_of d ''score'' of None \<Rightarrow> True | Some sc \<Rightarrow> \<not> is_int_or_float sc) \<longrightarrow>
               score_label d = []) \<and>
            (map_of d ''url'' = None \<longrightarrow> link_line B d = []) \<and>
            (map_of d ''snippet'' = None \<and> map_of d ''text'' = None \<longrightarrow> snippet_line B d = []))"
proof -
  have blk: "sources_block B payload =
          ([Expander ''Sources & citations''
              (concat (map (\<lambda>(i, d). source_lines B i d) (zip [1..<Suc (length ds)] ds)))], None)"
    using assms by (rule sources_block_dicts)
  have whole: "\<exists>before. render_rich_answer B payload =
            (before @ [Expander ''Sources & citations''
                         (concat (map (\<lambda>(i, d). source_lines B i d)
                                      (zip [1..<Suc (length ds)] ds)))],
             None)"
    if "renderable B payload"
    unfolding render_rich_answer_eq [OF that] blk
    by (simp only: prod.case append_assoc [symmetric]) blast
  have each: "(\<exists>title. source_lines B i d =
          Markdown (PStr (''**'' @ nat_str i @ ''. '' @ title @ ''**'' @ score_label d))
          # link_line B d @ snippet_line B d \<and>
          (map_of d ''title'' = None \<longrightarrow> title = ''Source '' @ nat_str i)) \<and>
       (\<forall>sc. map_of d ''score'' = Some sc \<and> is_int_or_float sc \<longrightarrow>
          (\<exists>s. format_f 3 sc = Inr s \<and> score_label d = '' **(score: '' @ s @ '')**'' \<and>
               (finite_number sc \<longrightarrow> three_decimals s))) \<and>
       ((case map_of d ''score'' of None \<Rightarrow> True | Some sc \<Rightarrow> \<not> is_int_or_float sc) \<longrightarrow>
          score_label d = []) \<and>
       (map_of d ''url'' = None \<longrightarrow> link_line B d = []) \<and>
       (map_of d ''snippet'' = None \<and> map_of d ''text'' = None \<longrightarrow> snippet_line B d = [])"
    if d: "d \<in> set ds" for d i
  proof -
    have t: "\<exists>title. source_lines B i d =
          Markdown (PStr (''**'' @ nat_str i @ ''. '' @ title @ ''**'' @ score_label d))
          # link_line B d @ snippet_line B d \<and>
          (map_of d ''title'' = None \<longrightarrow> title = ''Source '' @ nat_str i)"
      by (rule exI [of _ "source_title B i d"])
         (simp add: source_lines_def source_title_def preferred_field_def)
    have sc: "\<exists>s. format_f 3 sc = Inr s \<and> score_label d = '' **(score: '' @ s @ '')**'' \<and>
               (finite_number sc \<longrightarrow> three_decimals s)"
      if sc: "map_of d ''score'' = Some sc" "is_int_or_float sc" for sc
    proof -
      from d assms(3) have "score_in_range d" by (simp add: list_all_iff source_ok_def)
      then obtain s where s: "format_f 3 sc = Inr s"
        using format_f_in_range sc by blast
      then have "finite_number sc \<longrightarrow> three_decimals s"
        using format_f_three_decimals by blast
      with s sc show ?thesis
        by (simp add: score_label_def)
    qed
    have nolabel: "(case map_of d ''score'' of None \<Rightarrow> True | Some sc \<Rightarrow> \<not> is_int_or_float sc) \<longrightarrow>
          score_label d = []"
      by (simp add: score_label_def split: option.splits)
    have url: "map_of d ''url'' = None \<longrightarrow> link_line B d = []"
      by (simp add: link_line_def preferred_field_def)
    have snip: "map_of d ''snippet'' = None \<and> map_of d ''text'' = None \<longrightarrow> snippet_line B d = []"
      by (simp add: snippet_line_def preferred_field_def)
    from t sc nolabel url snip show ?thesis by blast
  qed
  from blk whole each show ?thesis by blast
qed

theorem render_sources_witness:
  "(\<exists>before. render_rich_answer (example_builtins True)
       [(''answer'', PStr ''ok''),
        (''sources'', PList [PDict [(''title'', PStr ''A'')],
                             PDict [(''score'', PFloat (Finite 7494890499869979 (- 53)))]])] =
      (before @ [Expander ''Sources & citations''
                   [Markdown (PStr ''**1. A**''),
                    Markdown (PStr ''**2. Source 2** **(score: 0.832)**'')]],
       None)) \<and>
   three_decimals ''0.832''"
proof -
  let ?d1 = "[(''title'', PStr ''A'')]"
  let ?d2 = "[(''score'', PFloat (Finite 7494890499869979 (- 53)))]"
  let ?P = "[(''answer'', PStr ''ok''), (''sources'', PList [PDict ?d1, PDict ?d2])]"
  have h1: "map_of ?P ''sources'' = Some (PList (map PDict [?d1, ?d2]))" by simp
  have h2: "[?d1, ?d2] \<noteq> []" by simp
  have h3: "list_all (source_ok (example_builtins True)) [?d1, ?d2]"
    by (simp add: source_ok_def score_in_range_def preferred_field_def)
  have h4: "renderable (example_builtins True) ?P"
    by (simp add: renderable_def nonempty_field_def dict_get_default_def)
  note T = render_sources [OF h1 h2 h3, of ]
  have r: "round_half_even_div 7494890499869979000 9007199254740992 = 832"
    by (simp add: round_half_even_div_def Let_def)
  have g: "fixed_digits 3 832 = ''0.832''"
    by (simp add: fixed_digits_def pad_zeros_def nat_str.simps digit_char_def)
  have f: "format_f 3 (PFloat (Finite 7494890499869979 (- 53))) = Inr ''0.832''"
    by (simp add: r g)
  have idx: "[1..<Suc (length [?d1, ?d2])] = [1, 2]"
    by (simp add: upt_conv_Cons)
  have l1: "source_lines (example_builtins True) (Suc 0) ?d1 = [Markdown (PStr ''**1. A**'')]"
    by (simp add: source_lines_def source_title_def score_label_def link_line_def
          snippet_line_def preferred_field_def nat_str.simps digit_char_def)
  have l2: "source_lines (example_builtins True) 2 ?d2 =
              [Markdown (PStr ''**2. Source 2** **(score: 0.832)**'')]"
    by (simp add: source_lines_def source_title_def score_label_def link_line_def
          snippet_line_def preferred_field_def nat_str.simps digit_char_def r g)
  from T [THEN conjunct2, THEN conjunct1] h4
  have "\<exists>before. render_rich_answer (example_builtins True) ?P =
      (before @ [Expander ''Sources & citations''
                   [Markdown (PStr ''**1. A**''),
                    Markdown (PStr ''**2. Source 2** **(score: 0.832)**'')]], None)"
    unfolding idx by (simp add: l1 l2)
  moreover from T [THEN conjunct2, THEN conjunct2] f have "three_decimals ''0.832''"
    by auto
  ultimately show ?thesis by blast
qed

section \<open>Properties of the query session\<close>

lemma dict_get_default_answer:
  "map_of p ''answer'' = Some a \<Longrightarrow> dict_get_default p ''answer'' alt = a"
  by (simp add: dict_get_default_def)

text \<open>When the renderer returns normally, the answer it was given has a text.\<close>

lemma render_rich_answer_text:
  "render_rich_answer B p = (xs, None) \<Longrightarrow>
   py_str_raises B (dict_get_default p ''answer'' (PStr '''')) = None"
  by (auto simp: render_rich_answer_def then_ui_def st_markdown_def emit_def
        split: option.splits prod.splits)

text \<open>
  What a call does, by the outcome of its one call of the query operation. It makes
  that call and no other. Either it returns normally, having appended the user turn and
  one assistant turn whose content has a text; or an exception that is not an
  \<^verbatim>\<open>Exception\<close> leaves it, and only the user turn has been appended.
\<close>

lemma process_query_outcome:
  "\<exists>s' r. process_query B G elapsed q s = (s', r) \<and>
     workflow s' = workflow s \<and>
     query_calls s' = query_calls s @ [(workflow s, q)] \<and>
     (case r of
        None \<Rightarrow>
          (\<exists>a. messages s' = messages s @ [\<lparr>role = ''user'', content = PStr q\<rparr>,
                                           \<lparr>role = ''assistant'', content = a\<rparr>] \<and>
               py_str_raises B a = None \<and>
               (case query_hybrid_rag G (length (query_calls s)) (workflow s) q of
                  Inl e \<Rightarrow> is_exception e \<and> a = PStr fallback_message
                | Inr raw \<Rightarrow>
                    a = PStr fallback_message \<or>
                    (\<exists>p. normalize_result B raw = Inr p \<and> map_of p ''answer'' = Some a \<and>
                         (textual_answer raw \<longrightarrow> is_str a))))
      | Some e \<Rightarrow>
          \<not> is_exception e \<and>
          messages s' = messages s @ [\<lparr>role = ''user'', content = PStr q\<rparr>])"
proof (cases "query_hybrid_rag G (length (query_calls s)) (workflow s) q")
  case (Inl e)
  then show ?thesis
    by (cases "is_exception e")
       (simp_all add: process_query_def query_body_def call_query_def try_except_def
          messages_append_def Let_def fallback_message_def)
next
  case (Inr raw)
  show ?thesis
  proof (cases "normalize_result B raw")
    case nl: (Inl e)
    with Inr show ?thesis
      by (cases "is_exception e")
         (simp_all add: process_query_def query_body_def call_query_def try_except_def
            messages_append_def Let_def fallback_message_def)
  next
    case nr: (Inr p)
    obtain a where a: "map_of p ''answer'' = Some a" "textual_answer raw \<longrightarrow> is_str a"
      using normalize_result_answer [OF nr] by blast
    obtain xs err where r: "render_rich_answer B p = (xs, err)"
      by (cases "render_rich_answer B p")
    show ?thesis
    proof (cases err)
      case None
      with r have "py_str_raises B (dict_get_default p ''answer'' (PStr '''')) = None"
        using render_rich_answer_text by blast
      with a have "py_str_raises B a = None"
        by (simp add: dict_get_default_answer)
      with Inr nr r None a show ?thesis
        by (simp add: process_query_def query_body_def call_query_def try_except_def
              messages_append_def Let_def dict_get_default_answer)
    next
      case (Some e)
      with Inr nr r show ?thesis
        by (cases "is_exception e")
           (simp_all add: process_query_def query_body_def call_query_def try_except_def
              messages_append_def Let_def fallback_message_def)
    qed
  qed
qed




text \<open>
  C10, on the code: the content of the assistant turn is meant to be a plain string. The
  source annotates the messages as \<^verbatim>\<open>List[Dict[str, str]]\<close>, declares
  \<^verbatim>\<open>content: str\<close> in \<^verbatim>\<open>_render_message\<close>, names the stored value
  \<^verbatim>\<open>answer_text\<close>, and converts with \<^verbatim>\<open>str\<close> on the fallback path of the
  normalizer; but nothing converts the "answer" of a record. When the engine returns the
  record \<^verbatim>\<open>{"answer": 42}\<close>, the content that is stored is the integer 42, not a
  string.
\<close>

theorem process_query_stores_non_string:
  "messages (fst (process_query (example_builtins True)
                    (example_engine (Inr (PDict [(''answer'', PInt 42)])))
                    (Finite 3 (- 1)) ''X'' empty_session)) =
     [\<lparr>role = ''user'', content = PStr ''X''\<rparr>, \<lparr>role = ''assistant'', content = PInt 42\<rparr>] \<and>
   \<not> is_str (PInt 42)"
proof -
  have "max_str_digits (example_builtins True) = 4300"
    by (simp add: example_builtins_def)
  then have t: "py_str_raises (example_builtins True) (PInt 42) = None"
    by (intro py_str_raises_small) simp_all
  have n: "normalize_result (example_builtins True) (PDict [(''answer'', PInt 42)]) =
             Inr [(''answer'', PInt 42)]"
    by (simp add: copy_if_present_eq bind_err_def py_in_def py_or_def dict_get_def
          dict_get_default_def)
  have r: "render_rich_answer (example_builtins True) [(''answer'', PInt 42)] =
             ([Markdown (PInt 42)], None)"
    unfolding render_rich_answer_def sql_block_eq rows_block_eq
    by (simp add: st_markdown_def t sources_block_def key_truthy_eq nonempty_field_def
          emit_def then_ui_def dict_get_default_def del: py_str_raises.simps)
  show ?thesis
    by (simp add: process_query_def query_body_def call_query_def try_except_def
          messages_append_def Let_def example_engine_def empty_session_def n r
          dict_get_default_def del: normalize_result.simps)
qed

section \<open>Properties of the handle cache\<close>

text \<open>
  C7: if a call of \<^verbatim>\<open>_init_workflow_sync()\<close> returns a handle, the next call, with
  no \<^verbatim>\<open>clear()\<close> in between, returns the same handle and leaves the cache as it
  is, so that the external initializer has been invoked at most once over the two
  calls; after \<^verbatim>\<open>clear()\<close> the next call invokes the initializer exactly once; and
  if the initializer raises, the call raises that exception, nothing is stored, and the
  call after it invokes the initializer again.
\<close>

theorem init_workflow_sync_cache:
  "(init_workflow_sync G c = (Inr w, c') \<longrightarrow>
      init_workflow_sync G c' = (Inr w, c') \<and> init_calls c' \<le> Suc (init_calls c)) \<and>
   init_calls (snd (init_workflow_sync G (init_workflow_sync_clear c))) = Suc (init_calls c) \<and>
   (cached c = None \<and> setup_hybrid_rag G (init_calls c) = Inl e \<longrightarrow>
      fst (init_workflow_sync G c) = Inl e \<and>
      cached (snd (init_workflow_sync G c)) = None \<and>
      init_workflow_sync G (snd (init_workflow_sync G c)) =
        (case setup_hybrid_rag G (Suc (init_calls c)) of
           Inl e' \<Rightarrow> (Inl e', \<lparr>cached = None, init_calls = Suc (Suc (init_calls c))\<rparr>)
         | Inr w' \<Rightarrow> (Inr w', \<lparr>cached = Some w', init_calls = Suc (Suc (init_calls c))\<rparr>)))"
  by (cases c)
     (auto simp: init_workflow_sync_def init_workflow_sync_clear_def
           split: option.splits sum.splits)

theorem init_workflow_sync_cache_witness:
  "init_workflow_sync (flaky_engine (PyErr ''RuntimeError'' ''no index''))
      \<lparr>cached = None, init_calls = 0\<rparr> =
     (Inl (PyErr ''RuntimeError'' ''no index''), \<lparr>cached = None, init_calls = 1\<rparr>) \<and>
   init_workflow_sync (flaky_engine (PyErr ''RuntimeError'' ''no index''))
      \<lparr>cached = None, init_calls = 1\<rparr> =
     (Inr 1, \<lparr>cached = Some 1, init_calls = 2\<rparr>) \<and>
   init_workflow_sync (flaky_engine (PyErr ''RuntimeError'' ''no index''))
      \<lparr>cached = Some 1, init_calls = 2\<rparr> =
     (Inr 1, \<lparr>cached = Some 1, init_calls = 2\<rparr>)"
proof -
  let ?G = "flaky_engine (PyErr ''RuntimeError'' ''no index'')"
  let ?e = "PyErr ''RuntimeError'' ''no index''"
  have a: "cached \<lparr>cached = None :: nat option, init_calls = 0\<rparr> = None \<and>
           setup_hybrid_rag ?G (init_calls \<lparr>cached = None :: nat option, init_calls = 0\<rparr>) = Inl ?e"
    by (simp add: flaky_engine_def)
  have b: "init_workflow_sync ?G \<lparr>cached = None, init_calls = 1\<rparr> =
             (Inr 1, \<lparr>cached = Some 1, init_calls = 2\<rparr>)"
    by (simp add: init_workflow_sync_def flaky_engine_def)
  from init_workflow_sync_cache [of ?G "\<lparr>cached = None, init_calls = 1\<rparr>" 1
        "\<lparr>cached = Some 1, init_calls = 2\<rparr>" ?e] b
  have c: "init_workflow_sync ?G \<lparr>cached = Some 1, init_calls = 2\<rparr> =
             (Inr 1, \<lparr>cached = Some 1, init_calls = 2\<rparr>)"
    by simp
  from init_workflow_sync_cache [of ?G "\<lparr>cached = None, init_calls = 0\<rparr>" 0
        "\<lparr>cached = None, init_calls = 0\<rparr>" ?e] a
  have d: "fst (init_workflow_sync ?G \<lparr>cached = None, init_calls = 0\<rparr>) = Inl ?e"
    by blast
  have "init_workflow_sync ?G \<lparr>cached = None, init_calls = 0\<rparr> =
          (Inl ?e, \<lparr>cached = None, init_calls = 1\<rparr>)"
    using d by (simp add: init_workflow_sync_def flaky_engine_def)
  with b c show ?thesis by simp
qed

section \<open>Properties of the conversation store\<close>

lemma reinitialize_messages: "messages (snd (reinitialize G (c, s))) = messages s"
  by (auto simp: reinitialize_def split: prod.splits sum.splits if_splits)

lemma process_query_prefix:
  "prefix (messages s) (messages (fst (process_query B G elapsed q s)))"
  using process_query_outcome [of B G elapsed q s]
  by (auto split: option.splits)

text \<open>
  Every content in the store has a text: the query texts and the fallback message are
  strings, and an answer is stored only after \<^verbatim>\<open>st.markdown\<close> has converted it. So
  the f-strings of the replay and of the transcript export, which convert the stored
  contents, do not raise.
\<close>

lemma handle_action_contents_text:
  assumes "list_all (\<lambda>m. py_str_raises B (content m) = None) (messages s)"
  shows "list_all (\<lambda>m. py_str_raises B (content m) = None)
           (messages (snd (handle_action B G elapsed a (c, s))))"
proof -
  have q: "list_all (\<lambda>m. py_str_raises B (content m) = None)
             (messages (fst (process_query B G elapsed q s)))" for q
    using assms process_query_outcome [of B G elapsed q s]
    by (auto split: option.splits)
  show ?thesis
    by (cases a) (use assms q in \<open>simp_all add: reinitialize_messages messages_clear_def\<close>)
qed

text \<open>
  C8: after \<^verbatim>\<open>append(user, "hi")\<close>, \<^verbatim>\<open>append(assistant, "hello")\<close>, the clearing of
  the chat and \<^verbatim>\<open>append(user, "again")\<close>, whatever the store held before, the store
  is the one turn \<^verbatim>\<open>{user, "again"}\<close> and the replay shows exactly that turn; and
  every action of the user other than Clear Chat leaves the turns that were stored in
  place, unchanged, at the front of the store.
\<close>

theorem store_append_only:
  "messages_append ''user'' (PStr ''again'')
     (messages_clear
        (messages_append ''assistant'' (PStr ''hello'')
           (messages_append ''user'' (PStr ''hi'') ms))) =
     [\<lparr>role = ''user'', content = PStr ''again''\<rparr>] \<and>
   replay B (messages_append ''user'' (PStr ''again'')
     (messages_clear
        (messages_append ''assistant'' (PStr ''hello'')
           (messages_append ''user'' (PStr ''hi'') ms)))) =
     render_message B ''user'' (PStr ''again'') UserAvatar \<and>
   (a \<noteq> ClearChat \<longrightarrow>
      prefix (messages s) (messages (snd (handle_action B G elapsed a (c, s)))))"
proof -
  have "prefix (messages s) (messages (snd (handle_action B G elapsed a (c, s))))"
    if "a \<noteq> ClearChat"
  proof (cases a)
    case (ChipClick i)
    then show ?thesis
      using process_query_prefix [of s B G elapsed "EXAMPLE_QUERIES ! i"]
      by simp
  next
    case (ChatInput q)
    then show ?thesis
      using process_query_prefix [of s B G elapsed q]
      by simp
  qed (use that in \<open>simp_all add: reinitialize_messages\<close>)
  then show ?thesis
    by (simp add: messages_append_def messages_clear_def)
qed

theorem store_append_only_witness:
  "prefix [\<lparr>role = ''user'', content = PStr ''hi''\<rparr>]
     (messages (snd (handle_action (example_builtins True) (example_engine (Inr (PStr ''hello'')))
        (Finite 3 (- 1)) (ChatInput ''again'')
        (\<lparr>cached = Some 0, init_calls = 1\<rparr>,
         empty_session\<lparr>messages := [\<lparr>role = ''user'', content = PStr ''hi''\<rparr>]\<rparr>))))"
  using store_append_only [of "[]" "example_builtins True" "ChatInput ''again''"
      "empty_session\<lparr>messages := [\<lparr>role = ''user'', content = PStr ''hi''\<rparr>]\<rparr>"
      "example_engine (Inr (PStr ''hello''))" "Finite 3 (- 1)" "\<lparr>cached = Some 0, init_calls = 1\<rparr>"]
  by simp

section \<open>Properties of the transcript export\<close>

lemma transcript_md_eq:
  "transcript_md B ms acc = acc @ map (transcript_entry B) ms"
  by (induction ms arbitrary: acc) (simp_all add: transcript_entry_def Let_def)

lemma py_join_eq: "py_join sep (x # xs) = x @ concat (map (\<lambda>y. sep @ y) xs)"
  by (induction xs arbitrary: x) simp_all

text \<open>
  C9: the exported transcript is a function of the stored turns alone. For a store that
  is not empty it is the entry of the first turn, followed, for each further turn in
  order, by an empty line, a line "---" and the entry of that turn; the entry of a turn
  is the label \<^verbatim>\<open>**You:**\<close> for a user turn and \<^verbatim>\<open>**Assistant:**\<close> for an
  assistant turn, an empty line, and the content. (For an empty store there is no
  download button and nothing is exported.)
\<close>

theorem transcript_export:
  "md_blob B (m # ms) =
     Some (transcript_entry B m
           @ concat (map (\<lambda>t. nl @ ''---'' @ nl @ transcript_entry B t) ms)) \<and>
   (role m = ''user'' \<longrightarrow>
      transcript_entry B m = ''**You:**'' @ nl @ nl @ py_str B (content m) @ nl) \<and>
   (role m = ''assistant'' \<longrightarrow>
      transcript_entry B m = ''**Assistant:**'' @ nl @ nl @ py_str B (content m) @ nl) \<and>
   md_blob B [] = None"
proof -
  have "md_blob B (m # ms) =
     Some (transcript_entry B m
           @ concat (map (\<lambda>t. nl @ ''---'' @ nl @ transcript_entry B t) ms))"
    by (simp add: md_blob_def transcript_md_eq py_join_eq comp_def)
  moreover have "md_blob B [] = None"
    by (simp add: md_blob_def)
  ultimately show ?thesis
    by (simp add: transcript_entry_def)
qed

theorem transcript_export_witness:
  "md_blob (example_builtins True)
     [\<lparr>role = ''user'', content = PStr ''hi''\<rparr>, \<lparr>role = ''assistant'', content = PStr ''hello''\<rparr>] =
   Some (''**You:**'' @ nl @ nl @ ''hi'' @ nl @ nl @ ''---'' @ nl @
         ''**Assistant:**'' @ nl @ nl @ ''hello'' @ nl)"
  using transcript_export [of "example_builtins True" "\<lparr>role = ''user'', content = PStr ''hi''\<rparr>"
      "[\<lparr>role = ''assistant'', content = PStr ''hello''\<rparr>]"]
    transcript_export [of "example_builtins True" "\<lparr>role = ''assistant'', content = PStr ''hello''\<rparr>" "[]"]
  by simp

end
